theory Spec2Isabelle
  imports Complex_Main
begin

section \<open>Python values and exceptions\<close>

text \<open>
  The exceptions the modelled functions can raise or catch.  \<open>RequestFailed\<close> stands for
  the transport exceptions of \<^verbatim>\<open>requests.post\<close> (connection error, timeout), which are
  not \<^verbatim>\<open>requests.HTTPError\<close>; \<open>HTTPError\<close> is what \<^verbatim>\<open>raise_for_status\<close> raises.
\<close>

datatype py_exc =
    ValueError
  | TypeError
  | OverflowError
  | AttributeError
  | HTTPError
  | RequestFailed
  | JSONDecodeError
  | RuntimeError string

section \<open>Strings\<close>

definition digit_char :: "nat \<Rightarrow> char" where
  "digit_char n = ''0123456789'' ! (n mod 10)"

fun dec_digits :: "nat \<Rightarrow> string" where
  "dec_digits n =
     (if n < 10 then [digit_char n] else dec_digits (n div 10) @ [digit_char (n mod 10)])"

text \<open>The \<^verbatim>\<open>%0wd\<close> conversion of a non-negative number: zero padding up to width \<open>w\<close>.\<close>

definition zero_pad :: "nat \<Rightarrow> nat \<Rightarrow> string" where
  "zero_pad w n = replicate (w - length (dec_digits n)) (CHR ''0'') @ dec_digits n"

fun starts_with :: "string \<Rightarrow> string \<Rightarrow> bool" where
  "starts_with [] s = True"
| "starts_with (p # ps) [] = False"
| "starts_with (p # ps) (c # cs) = (p = c \<and> starts_with ps cs)"

text \<open>
  \<^verbatim>\<open>s.replace(old, new)\<close>: the occurrences of \<open>old\<close> are replaced from left to right,
  without overlap; with an empty \<open>old\<close> Python puts \<open>new\<close> before every character and at
  the end.
\<close>

function str_replace :: "string \<Rightarrow> string \<Rightarrow> string \<Rightarrow> string" where
  "str_replace old new s =
     (if old = [] then new @ concat (map (\<lambda>c. c # new) s)
      else if s = [] then []
      else if starts_with old s then new @ str_replace old new (drop (length old) s)
      else hd s # str_replace old new (tl s))"
  by pat_completeness auto
termination
  by (relation "measure (\<lambda>(old, new, s). length s)") (auto simp: neq_Nil_conv)

section \<open>Calendar arithmetic of \<^verbatim>\<open>datetime\<close>\<close>

text \<open>
  \<^verbatim>\<open>datetime\<close> is the proleptic Gregorian calendar with years \<open>MINYEAR = 1\<close> to
  \<open>MAXYEAR = 9999\<close>.  The functions below follow CPython's \<^verbatim>\<open>_datetimemodule.c\<close>:
  \<^verbatim>\<open>is_leap\<close>, \<^verbatim>\<open>days_in_month\<close>, \<^verbatim>\<open>days_before_month\<close>, \<^verbatim>\<open>days_before_year\<close>,
  \<^verbatim>\<open>ymd_to_ord\<close>, \<^verbatim>\<open>ord_to_ymd\<close>, \<^verbatim>\<open>normalize_pair\<close>, \<^verbatim>\<open>normalize_y_m_d\<close> and
  \<^verbatim>\<open>normalize_datetime\<close>.  Microseconds are always zero in the modelled code and are
  left out.
\<close>

definition MINYEAR :: int where "MINYEAR = 1"
definition MAXYEAR :: int where "MAXYEAR = 9999"
definition MAXORDINAL :: int where "MAXORDINAL = 3652059"

definition is_leap :: "int \<Rightarrow> bool" where
  "is_leap y = (y mod 4 = 0 \<and> (y mod 100 \<noteq> 0 \<or> y mod 400 = 0))"

definition days_in_month :: "int \<Rightarrow> int \<Rightarrow> int" where
  "days_in_month y m =
     (if m = 2 then (if is_leap y then 29 else 28)
      else if m = 4 \<or> m = 6 \<or> m = 9 \<or> m = 11 then 30 else 31)"

definition days_before_month_tab :: "int \<Rightarrow> int" where
  "days_before_month_tab m =
     (if m = 1 then 0 else if m = 2 then 31 else if m = 3 then 59 else if m = 4 then 90
      else if m = 5 then 120 else if m = 6 then 151 else if m = 7 then 181
      else if m = 8 then 212 else if m = 9 then 243 else if m = 10 then 273
      else if m = 11 then 304 else 334)"

definition days_before_month :: "int \<Rightarrow> int \<Rightarrow> int" where
  "days_before_month y m =
     days_before_month_tab m + (if m > 2 \<and> is_leap y then 1 else 0)"

definition days_before_year :: "int \<Rightarrow> int" where
  "days_before_year y =
     (let y1 = y - 1 in y1 * 365 + y1 div 4 - y1 div 100 + y1 div 400)"

definition ymd_to_ord :: "int \<Rightarrow> int \<Rightarrow> int \<Rightarrow> int" where
  "ymd_to_ord y m d = days_before_year y + days_before_month y m + d"

definition ord_to_ymd :: "int \<Rightarrow> int \<times> int \<times> int" where
  "ord_to_ymd ordinal =
     (let o1 = ordinal - 1;
          n400 = o1 div 146097; r400 = o1 mod 146097;
          n100 = r400 div 36524; r100 = r400 mod 36524;
          n4 = r100 div 1461; r4 = r100 mod 1461;
          n1 = r4 div 365; n = r4 mod 365;
          year = n400 * 400 + 1 + n100 * 100 + n4 * 4 + n1
      in if n1 = 4 \<or> n100 = 4 then (year - 1, 12, 31)
         else
           (let leapyear = (n1 = 3 \<and> (n4 \<noteq> 24 \<or> n100 = 3));
                month = (n + 50) div 32;
                preceding = days_before_month_tab month + (if month > 2 \<and> leapyear then 1 else 0)
            in if preceding > n
               then (year, month - 1, n - (preceding - days_in_month year (month - 1)) + 1)
               else (year, month, n - preceding + 1)))"

record datetime =
  dt_year :: int
  dt_month :: int
  dt_day :: int
  dt_hour :: int
  dt_minute :: int
  dt_second :: int

text \<open>
  The constructor \<^verbatim>\<open>datetime(year, month, day)\<close> (midnight); it raises \<^verbatim>\<open>ValueError\<close>
  on a year, month or day out of range.
\<close>

definition mk_datetime :: "int \<Rightarrow> int \<Rightarrow> int \<Rightarrow> py_exc + datetime" where
  "mk_datetime y m d =
     (if \<not> (MINYEAR \<le> y \<and> y \<le> MAXYEAR) then Inl ValueError
      else if \<not> (1 \<le> m \<and> m \<le> 12) then Inl ValueError
      else if \<not> (1 \<le> d \<and> d \<le> days_in_month y m) then Inl ValueError
      else Inr \<lparr>dt_year = y, dt_month = m, dt_day = d,
                 dt_hour = 0, dt_minute = 0, dt_second = 0\<rparr>)"

text \<open>\<^verbatim>\<open>normalize_pair(hi, lo, factor)\<close>: carry from \<open>lo\<close> into \<open>hi\<close> by floor division.\<close>

definition normalize_pair :: "int \<Rightarrow> int \<Rightarrow> int \<Rightarrow> int \<times> int" where
  "normalize_pair hi lo factor =
     (if lo < 0 \<or> lo \<ge> factor then (hi + lo div factor, lo mod factor) else (hi, lo))"

definition normalize_y_m_d :: "int \<Rightarrow> int \<Rightarrow> int \<Rightarrow> py_exc + (int \<times> int \<times> int)" where
  "normalize_y_m_d y m d =
     (let dim = days_in_month y m;
          check = (\<lambda>(y', m', d').
             if MINYEAR \<le> y' \<and> y' \<le> MAXYEAR then Inr (y', m', d') else Inl OverflowError)
      in if d < 1 \<or> d > dim then
           (if d = 0 then
              (if m - 1 > 0 then check (y, m - 1, days_in_month y (m - 1))
               else check (y - 1, 12, 31))
            else if d = dim + 1 then
              (if m + 1 > 12 then check (y + 1, 1, 1) else check (y, m + 1, 1))
            else
              (let ordinal = ymd_to_ord y m 1 + d - 1
               in if ordinal < 1 \<or> ordinal > MAXORDINAL then Inl OverflowError
                  else Inr (ord_to_ymd ordinal)))
         else check (y, m, d))"

text \<open>
  Adding or subtracting a \<^verbatim>\<open>timedelta\<close>, as \<^verbatim>\<open>add_datetime_timedelta\<close> computes it:
  \<open>days\<close> and \<open>seconds\<close> are the signed amounts that are added to the day and to the
  second of the datetime (\<open>0\<close> and \<open>- 1\<close> for \<^verbatim>\<open>dt - timedelta(seconds=1)\<close>), and the
  fields are then normalized from the seconds upwards.  A \<^verbatim>\<open>timedelta\<close> of more than
  999999999 days cannot be built (\<^verbatim>\<open>OverflowError\<close>).
\<close>

definition add_timedelta :: "datetime \<Rightarrow> int \<Rightarrow> int \<Rightarrow> py_exc + datetime" where
  "add_timedelta dt days seconds =
     (if \<bar>days\<bar> > 999999999 then Inl OverflowError
      else
        (let (mi, s) = normalize_pair (dt_minute dt) (dt_second dt + seconds) 60;
             (h, mi') = normalize_pair (dt_hour dt) mi 60;
             (d, h') = normalize_pair (dt_day dt + days) h 24
         in case normalize_y_m_d (dt_year dt) (dt_month dt) d of
              Inl e \<Rightarrow> Inl e
            | Inr (y', m', d') \<Rightarrow>
                Inr \<lparr>dt_year = y', dt_month = m', dt_day = d',
                     dt_hour = h', dt_minute = mi', dt_second = s\<rparr>))"

text \<open>
  \<^verbatim>\<open>strftime("%Y-%m-%dT%H:%M:%S")\<close>, which is also the \<^verbatim>\<open>isoformat()\<close> of a datetime
  without microseconds, up to the UTC offset.  The year is printed on four digits.
\<close>

definition fmt_datetime :: "datetime \<Rightarrow> string" where
  "fmt_datetime dt =
     zero_pad 4 (nat (dt_year dt)) @ ''-'' @ zero_pad 2 (nat (dt_month dt)) @ ''-'' @
     zero_pad 2 (nat (dt_day dt)) @ ''T'' @ zero_pad 2 (nat (dt_hour dt)) @ '':'' @
     zero_pad 2 (nat (dt_minute dt)) @ '':'' @ zero_pad 2 (nat (dt_second dt))"

text \<open>\<^verbatim>\<open>isoformat()\<close> of a datetime whose \<^verbatim>\<open>tzinfo\<close> is \<^verbatim>\<open>timezone.utc\<close>.\<close>

definition isoformat_utc :: "datetime \<Rightarrow> string" where
  "isoformat_utc dt = fmt_datetime dt @ ''+00:00''"

section \<open>The month range (\<^verbatim>\<open>iso_month_range\<close>, src/main.py)\<close>

definition iso_month_range :: "int \<Rightarrow> int \<Rightarrow> py_exc + (string \<times> string)" where
  "iso_month_range year month =
     (case mk_datetime year month 1 of
        Inl e \<Rightarrow> Inl e
      | Inr start \<Rightarrow>
          (case (if month = 12
                 then (case mk_datetime (year + 1) 1 1 of
                         Inl e \<Rightarrow> Inl e | Inr nxt \<Rightarrow> add_timedelta nxt 0 (- 1))
                 else (case mk_datetime year (month + 1) 1 of
                         Inl e \<Rightarrow> Inl e | Inr nxt \<Rightarrow> add_timedelta nxt 0 (- 1))) of
             Inl e \<Rightarrow> Inl e
           | Inr end \<Rightarrow>
               Inr (str_replace ''+00:00'' ''Z'' (isoformat_utc start),
                    str_replace ''+00:00'' ''Z'' (isoformat_utc end))))"

section \<open>Python floats\<close>

text \<open>
  A \<^verbatim>\<open>float\<close> is an IEEE 754 binary64 value.  A finite float is identified with the
  number it stands for, so the rounding of a decimal numeral or of a sum to the nearest
  binary64 value is not modelled; overflow to infinity is.  \<open>DBL_OVERFLOW\<close> is the least
  magnitude that rounds to infinity (half an ulp above the largest finite double).
\<close>

datatype pyfloat = Finite rat | PosInf | NegInf | NaN

definition DBL_OVERFLOW :: rat where
  "DBL_OVERFLOW = 2 ^ 1024 - 2 ^ 970"

definition round_float :: "rat \<Rightarrow> pyfloat" where
  "round_float q =
     (if q \<ge> DBL_OVERFLOW then PosInf else if q \<le> - DBL_OVERFLOW then NegInf else Finite q)"

text \<open>\<^verbatim>\<open>math.isfinite\<close>.\<close>

fun isfinite :: "pyfloat \<Rightarrow> bool" where
  "isfinite (Finite q) = True"
| "isfinite PosInf = False"
| "isfinite NegInf = False"
| "isfinite NaN = False"

text \<open>Float addition (\<^verbatim>\<open>total += val\<close>).\<close>

fun float_add :: "pyfloat \<Rightarrow> pyfloat \<Rightarrow> pyfloat" where
  "float_add (Finite a) (Finite b) = round_float (a + b)"
| "float_add NaN y = NaN"
| "float_add x NaN = NaN"
| "float_add PosInf NegInf = NaN"
| "float_add NegInf PosInf = NaN"
| "float_add PosInf y = PosInf"
| "float_add NegInf y = NegInf"
| "float_add x PosInf = PosInf"
| "float_add x NegInf = NegInf"

text \<open>\<^verbatim>\<open>int(x)\<close> of a float: truncation towards zero; infinities and NaN raise.\<close>

fun int_of_float :: "pyfloat \<Rightarrow> py_exc + int" where
  "int_of_float (Finite q) = Inr (if q \<ge> 0 then \<lfloor>q\<rfloor> else \<lceil>q\<rceil>)"
| "int_of_float PosInf = Inl OverflowError"
| "int_of_float NegInf = Inl OverflowError"
| "int_of_float NaN = Inl ValueError"

text \<open>\<^verbatim>\<open>float(n)\<close> of an \<^verbatim>\<open>int\<close>: too large an integer raises \<^verbatim>\<open>OverflowError\<close>.\<close>

definition float_of_int :: "int \<Rightarrow> py_exc + pyfloat" where
  "float_of_int n =
     (if \<bar>of_int n\<bar> \<ge> DBL_OVERFLOW then Inl OverflowError else Inr (Finite (of_int n)))"

subsection \<open>\<^verbatim>\<open>float(s)\<close> of a string\<close>

text \<open>
  Characters are bytes here; the text is taken to be ASCII.  \<open>py_isspace\<close> is the set of
  ASCII characters that Python counts as whitespace, for \<^verbatim>\<open>float\<close> as for \<^verbatim>\<open>\s\<close> in a
  regular expression.
\<close>

definition py_isspace :: "char \<Rightarrow> bool" where
  "py_isspace c = (c \<in> set [CHR '' '', CHR 0x09, CHR 0x0A, CHR 0x0B, CHR 0x0C, CHR 0x0D,
                              CHR 0x1C, CHR 0x1D, CHR 0x1E, CHR 0x1F])"

definition is_digit :: "char \<Rightarrow> bool" where
  "is_digit c = (c \<in> set ''0123456789'')"

definition digit_val :: "char \<Rightarrow> nat" where
  "digit_val c = (case map_of (zip ''0123456789'' [0, 1, 2, 3, 4, 5, 6, 7, 8, 9]) c of
                    Some v \<Rightarrow> v | None \<Rightarrow> 0)"

text \<open>\<^verbatim>\<open>int(s)\<close> of a string of decimal digits.\<close>

definition digits_val :: "string \<Rightarrow> nat" where
  "digits_val s = foldl (\<lambda>a c. 10 * a + digit_val c) 0 s"

definition to_lower :: "char \<Rightarrow> char" where
  "to_lower c =
     (case map_of (zip ''ABCDEFGHIJKLMNOPQRSTUVWXYZ'' ''abcdefghijklmnopqrstuvwxyz'') c of
        None \<Rightarrow> c | Some l \<Rightarrow> l)"

text \<open>\<^verbatim>\<open>s.lower()\<close>.\<close>

definition lower :: "string \<Rightarrow> string" where
  "lower s = map to_lower s"

definition strip :: "string \<Rightarrow> string" where
  "strip s = rev (dropWhile py_isspace (rev (dropWhile py_isspace s)))"

text \<open>
  Underscores in a numeral are allowed only between two digits
  (\<^verbatim>\<open>_Py_string_to_number_with_underscores\<close>); the result is the numeral without them.
  The first argument is the previous character.
\<close>

fun drop_underscores :: "char option \<Rightarrow> string \<Rightarrow> string option" where
  "drop_underscores prev [] = (if prev = Some (CHR ''_'') then None else Some [])"
| "drop_underscores prev (c # cs) =
     (if c = CHR ''_'' then
        (case prev of
           None \<Rightarrow> None
         | Some p \<Rightarrow> if is_digit p then drop_underscores (Some c) cs else None)
      else if prev = Some (CHR ''_'') \<and> \<not> is_digit c then None
      else map_option ((#) c) (drop_underscores (Some c) cs))"

text \<open>
  An unsigned decimal numeral: digits, an optional fraction, an optional exponent, with
  one digit at least before the exponent; the whole string must be consumed.
\<close>

definition parse_decimal :: "string \<Rightarrow> rat option" where
  "parse_decimal s =
     (let ip = takeWhile is_digit s; r1 = dropWhile is_digit s;
          has_point = (r1 \<noteq> [] \<and> hd r1 = CHR ''.'');
          fp = (if has_point then takeWhile is_digit (tl r1) else []);
          r2 = (if has_point then dropWhile is_digit (tl r1) else r1);
          mant = of_nat (digits_val (ip @ fp)) / 10 ^ length fp
      in if ip = [] \<and> fp = [] then None
         else if r2 = [] then Some mant
         else if hd r2 = CHR ''e'' \<or> hd r2 = CHR ''E'' then
           (let r3 = tl r2;
                neg = (r3 \<noteq> [] \<and> hd r3 = CHR ''-'');
                ds = (if r3 \<noteq> [] \<and> (hd r3 = CHR ''-'' \<or> hd r3 = CHR ''+'') then tl r3 else r3)
            in if ds = [] \<or> \<not> list_all is_digit ds then None
               else if neg then Some (mant / 10 ^ digits_val ds)
               else Some (mant * 10 ^ digits_val ds))
         else None)"

definition float_of_str :: "string \<Rightarrow> py_exc + pyfloat" where
  "float_of_str s =
     (case drop_underscores None (strip s) of
        None \<Rightarrow> Inl ValueError
      | Some u \<Rightarrow>
          (let neg = (u \<noteq> [] \<and> hd u = CHR ''-'');
               body = (if u \<noteq> [] \<and> (hd u = CHR ''-'' \<or> hd u = CHR ''+'') then tl u else u)
           in if lower body = ''inf'' \<or> lower body = ''infinity''
              then Inr (if neg then NegInf else PosInf)
              else if lower body = ''nan'' then Inr NaN
              else (case parse_decimal body of
                      None \<Rightarrow> Inl ValueError
                    | Some q \<Rightarrow> Inr (round_float (if neg then - q else q)))))"

section \<open>Python values\<close>

text \<open>
  The values that occur in decoded JSON documents and in database rows.  A \<^verbatim>\<open>dict\<close>
  with string keys is an association list in insertion order, read with \<open>map_of\<close>; it
  stands for a dictionary when its keys are distinct.
\<close>

datatype pyval =
    PNone
  | PBool bool
  | PInt int
  | PFloat pyfloat
  | PStr string
  | PList "pyval list"
  | PDict "(string \<times> pyval) list"
  | PDate int int int
  | PDateTime datetime

text \<open>Truth value testing (\<^verbatim>\<open>if x\<close>, \<^verbatim>\<open>not x\<close>, \<^verbatim>\<open>x or y\<close>).\<close>

fun truthy :: "pyval \<Rightarrow> bool" where
  "truthy PNone = False"
| "truthy (PBool b) = b"
| "truthy (PInt n) = (n \<noteq> 0)"
| "truthy (PFloat f) = (f \<noteq> Finite 0)"
| "truthy (PStr s) = (s \<noteq> [])"
| "truthy (PList xs) = (xs \<noteq> [])"
| "truthy (PDict kvs) = (kvs \<noteq> [])"
| "truthy (PDate y m d) = True"
| "truthy (PDateTime dt) = True"

text \<open>\<^verbatim>\<open>x or y\<close>.\<close>

definition py_or :: "pyval \<Rightarrow> pyval \<Rightarrow> pyval" where
  "py_or x y = (if truthy x then x else y)"

text \<open>\<^verbatim>\<open>d.get(k)\<close> on the items of a dictionary: \<^verbatim>\<open>None\<close> for a missing key.\<close>

definition dict_get :: "(string \<times> pyval) list \<Rightarrow> string \<Rightarrow> pyval" where
  "dict_get kvs k = (case map_of kvs k of None \<Rightarrow> PNone | Some v \<Rightarrow> v)"

text \<open>\<^verbatim>\<open>d.get(k, default)\<close>.\<close>

definition dict_get_default :: "(string \<times> pyval) list \<Rightarrow> string \<Rightarrow> pyval \<Rightarrow> pyval" where
  "dict_get_default kvs k dflt = (case map_of kvs k of None \<Rightarrow> dflt | Some v \<Rightarrow> v)"

text \<open>\<^verbatim>\<open>d[k] = v\<close>: an existing key keeps its place.\<close>

fun dict_set :: "(string \<times> pyval) list \<Rightarrow> string \<Rightarrow> pyval \<Rightarrow> (string \<times> pyval) list" where
  "dict_set [] k v = [(k, v)]"
| "dict_set ((k', v') # kvs) k v =
     (if k' = k then (k, v) # kvs else (k', v') # dict_set kvs k v)"

text \<open>
  \<^verbatim>\<open>for p in x\<close>: the elements of a list, the characters of a string, the keys of a
  dictionary; any other value is not iterable.
\<close>

fun py_iter :: "pyval \<Rightarrow> py_exc + pyval list" where
  "py_iter (PList xs) = Inr xs"
| "py_iter (PStr s) = Inr (map (\<lambda>c. PStr [c]) s)"
| "py_iter (PDict kvs) = Inr (map (\<lambda>kv. PStr (fst kv)) kvs)"
| "py_iter v = Inl TypeError"

text \<open>\<^verbatim>\<open>float(x)\<close>.\<close>

fun py_float :: "pyval \<Rightarrow> py_exc + pyfloat" where
  "py_float (PBool b) = Inr (Finite (if b then 1 else 0))"
| "py_float (PInt n) = float_of_int n"
| "py_float (PFloat f) = Inr f"
| "py_float (PStr s) = float_of_str s"
| "py_float v = Inl TypeError"

section \<open>HTTP exchanges with the vector store\<close>

text \<open>
  What one \<^verbatim>\<open>requests.post\<close> call gives back: the call itself raises (connection
  error, timeout), or a response arrives with a status code and a body; the body is
  \<open>None\<close> when it is not JSON, so that \<^verbatim>\<open>r.json()\<close> raises.
\<close>

datatype http_reply = PostRaised | Response int "pyval option"

text \<open>\<^verbatim>\<open>r.raise_for_status()\<close> raises for the status codes 400 to 599.\<close>

definition raises_for_status :: "int \<Rightarrow> bool" where
  "raises_for_status status = (400 \<le> status \<and> status < 600)"

record http_request =
  req_path :: string
  req_body :: pyval

section \<open>The scroll engine (\<^verbatim>\<open>scroll_query_with_filter\<close>, src/main.py)\<close>

text \<open>
  The generator is run against a script of replies, one per request, and gives the trace
  of what it does: the requests it sends and the payloads it yields, in order, and how
  it ends.  \<open>Awaiting\<close> is the state of a generator that has sent a request for which
  the script holds no reply.  A consumer that stops reading cuts the trace where it
  stops.
\<close>

datatype scroll_event = Request http_request | Yield pyval

datatype scroll_end = Exhausted | Raised py_exc | Awaiting

definition scroll_request :: "string \<Rightarrow> pyval \<Rightarrow> int \<Rightarrow> pyval \<Rightarrow> http_request" where
  "scroll_request collection_name filter_obj batch_size offset =
     \<lparr>req_path = ''/collections/'' @ collection_name @ ''/points/scroll'',
      req_body = PDict ([(''limit'', PInt batch_size), (''with_payload'', PBool True),
                         (''filter'', filter_obj)] @
                        (if offset \<noteq> PNone then [(''offset'', offset)] else []))\<rparr>"

text \<open>The variable \<^verbatim>\<open>points\<close>, from the decoded response \<open>resp\<close> (a dictionary).\<close>

definition scroll_points :: "(string \<times> pyval) list \<Rightarrow> pyval" where
  "scroll_points resp =
     (let top = (case dict_get resp ''points'' of PList ps \<Rightarrow> PList ps | _ \<Rightarrow> PList [])
      in case dict_get resp ''result'' of
           PDict result \<Rightarrow> (case map_of result ''points'' of Some v \<Rightarrow> v | None \<Rightarrow> top)
         | PList ps \<Rightarrow> PList ps
         | _ \<Rightarrow> top)"

text \<open>What is yielded for a point \<open>p\<close>.\<close>

definition point_payload :: "pyval \<Rightarrow> pyval" where
  "point_payload p =
     (case p of PDict kvs \<Rightarrow> dict_get_default kvs ''payload'' (PDict []) | _ \<Rightarrow> PDict [])"

text \<open>The variable \<^verbatim>\<open>next_offset\<close> when the page has been yielded.\<close>

definition scroll_next_offset :: "(string \<times> pyval) list \<Rightarrow> pyval" where
  "scroll_next_offset resp =
     (let next_offset =
            (case dict_get resp ''result'' of
               PDict result \<Rightarrow>
                 py_or (dict_get result ''next_page'')
                   (py_or (dict_get result ''next_page_offset'') (dict_get result ''offset''))
             | _ \<Rightarrow> PNone)
      in py_or next_offset
           (py_or (dict_get resp ''next_page'')
              (py_or (dict_get resp ''next_page_offset'') (dict_get resp ''offset''))))"

fun scroll_loop ::
  "string \<Rightarrow> pyval \<Rightarrow> int \<Rightarrow> pyval \<Rightarrow> http_reply list \<Rightarrow> scroll_event list \<times> scroll_end" where
  "scroll_loop collection_name filter_obj batch_size offset [] =
     ([Request (scroll_request collection_name filter_obj batch_size offset)], Awaiting)"
| "scroll_loop collection_name filter_obj batch_size offset (r # rs) =
     (let sent = Request (scroll_request collection_name filter_obj batch_size offset)
      in case r of
           PostRaised \<Rightarrow> ([sent], Raised RequestFailed)
         | Response status body \<Rightarrow>
             if raises_for_status status then ([sent], Raised HTTPError)
             else (case body of
                 None \<Rightarrow> ([sent], Raised JSONDecodeError)
               | Some (PDict resp) \<Rightarrow>
                   (let points = scroll_points resp
                    in if \<not> truthy points then ([sent], Exhausted)
                       else (case py_iter points of
                           Inl e \<Rightarrow> ([sent], Raised e)
                         | Inr ps \<Rightarrow>
                             (let yielded = sent # map (\<lambda>p. Yield (point_payload p)) ps;
                                  next_offset = scroll_next_offset resp
                              in if \<not> truthy next_offset then (yielded, Exhausted)
                                 else (let (evs, e) = scroll_loop collection_name filter_obj
                                                        batch_size next_offset rs
                                       in (yielded @ evs, e)))))
               | Some other \<Rightarrow> ([sent], Raised AttributeError)))"

text \<open>The generator starts with \<^verbatim>\<open>offset = None\<close>.\<close>

definition scroll_query_with_filter ::
  "string \<Rightarrow> pyval \<Rightarrow> int \<Rightarrow> http_reply list \<Rightarrow> scroll_event list \<times> scroll_end" where
  "scroll_query_with_filter collection_name filter_obj batch_size replies =
     scroll_loop collection_name filter_obj batch_size PNone replies"

text \<open>The requests sent and the payloads yielded in a trace.\<close>

fun requests_of :: "scroll_event list \<Rightarrow> http_request list" where
  "requests_of [] = []"
| "requests_of (Request r # evs) = r # requests_of evs"
| "requests_of (Yield p # evs) = requests_of evs"

fun yields_of :: "scroll_event list \<Rightarrow> pyval list" where
  "yields_of [] = []"
| "yields_of (Request r # evs) = yields_of evs"
| "yields_of (Yield p # evs) = p # yields_of evs"

section \<open>The month aggregators (\<^verbatim>\<open>aggregate_sales\<close>, \<^verbatim>\<open>aggregate_volume\<close>, src/main.py)\<close>

record agg_state =
  total :: pyfloat
  count :: int
  bad_rows :: int

definition agg_init :: agg_state where
  "agg_init = \<lparr>total = Finite 0, count = 0, bad_rows = 0\<rparr>"

text \<open>
  The body of the \<^verbatim>\<open>for payload in ...\<close> loop once the value has been picked: the
  inner \<^verbatim>\<open>try\<close> turns every exception of the conversion into a skipped row.
\<close>

definition accumulate :: "pyval \<Rightarrow> agg_state \<Rightarrow> agg_state" where
  "accumulate picked st =
     (if picked = PNone then st\<lparr>bad_rows := bad_rows st + 1\<rparr>
      else
        (case py_float (case picked of PStr s \<Rightarrow> PStr (str_replace '','' [] s) | v \<Rightarrow> v) of
           Inl e \<Rightarrow> st\<lparr>bad_rows := bad_rows st + 1\<rparr>
         | Inr val \<Rightarrow>
             if isfinite val then st\<lparr>total := float_add (total st) val, count := count st + 1\<rparr>
             else st\<lparr>bad_rows := bad_rows st + 1\<rparr>))"

text \<open>
  One round of the loop of \<^verbatim>\<open>aggregate_sales\<close>.  \<^verbatim>\<open>payload.get\<close> is outside the inner
  \<^verbatim>\<open>try\<close>: on a payload that is not a dictionary it raises \<^verbatim>\<open>AttributeError\<close>.
\<close>

definition sales_step :: "pyval \<Rightarrow> agg_state \<Rightarrow> py_exc + agg_state" where
  "sales_step payload st =
     (case payload of
        PDict kvs \<Rightarrow>
          Inr (accumulate (py_or (dict_get kvs ''sales'') (dict_get kvs ''sales_amount'')) st)
      | _ \<Rightarrow> Inl AttributeError)"

definition volume_step :: "pyval \<Rightarrow> agg_state \<Rightarrow> py_exc + agg_state" where
  "volume_step payload st =
     (case payload of
        PDict kvs \<Rightarrow>
          Inr (accumulate
                 (py_or (dict_get kvs ''sales_vol'')
                    (py_or (dict_get kvs ''quantity'') (dict_get kvs ''sales_volume''))) st)
      | _ \<Rightarrow> Inl AttributeError)"

text \<open>
  The \<^verbatim>\<open>for\<close> loop over the generator: the requests that were sent and how the loop
  ended.  An exception of the loop body ends the loop at once, before the generator
  sends anything more.
\<close>

datatype loop_end = Completed agg_state | Failed py_exc | Blocked

fun consume ::
  "(pyval \<Rightarrow> agg_state \<Rightarrow> py_exc + agg_state) \<Rightarrow> scroll_event list \<Rightarrow> scroll_end \<Rightarrow>
     agg_state \<Rightarrow> http_request list \<times> loop_end" where
  "consume step [] e st =
     ([], case e of Exhausted \<Rightarrow> Completed st | Raised x \<Rightarrow> Failed x | Awaiting \<Rightarrow> Blocked)"
| "consume step (Request r # evs) e st =
     (let (rs, out) = consume step evs e st in (r # rs, out))"
| "consume step (Yield p # evs) e st =
     (case step p st of Inl x \<Rightarrow> ([], Failed x) | Inr st' \<Rightarrow> consume step evs e st')"

text \<open>
  The outcome of an endpoint call: the dictionary it returns, the \<^verbatim>\<open>HTTPException\<close>
  (status code and detail) it raises, or \<open>Pending\<close> while the store has not answered.
  The text of the caught \<^verbatim>\<open>HTTPError\<close> that follows \<^verbatim>\<open>Qdrant error: \<close> in the detail
  of a 502 is left out.
\<close>

datatype agg_outcome = Returned pyval | HTTPException int string | Pending

definition month_filter :: "string \<Rightarrow> string \<Rightarrow> pyval" where
  "month_filter start_iso end_iso =
     PDict [(''must'', PList [PDict [(''key'', PStr ''month_year''),
        (''range'', PDict [(''gte'', PStr start_iso), (''lte'', PStr end_iso)])]])]"

definition agg_outcome_of :: "loop_end \<Rightarrow> (agg_state \<Rightarrow> pyval) \<Rightarrow> agg_outcome" where
  "agg_outcome_of le result =
     (case le of
        Completed st \<Rightarrow> Returned (result st)
      | Failed HTTPError \<Rightarrow> HTTPException 502 ''Qdrant error: ''
      | Failed x \<Rightarrow> HTTPException 500 ''Internal error during aggregation''
      | Blocked \<Rightarrow> Pending)"

definition aggregate_sales ::
  "int \<Rightarrow> int \<Rightarrow> string \<Rightarrow> http_reply list \<Rightarrow> http_request list \<times> agg_outcome" where
  "aggregate_sales year month collection replies =
     (if \<not> (1 \<le> month \<and> month \<le> 12) then ([], HTTPException 400 ''month must be 1..12'')
      else (case iso_month_range year month of
          Inl e \<Rightarrow> ([], HTTPException 400 ''invalid year/month'')
        | Inr (start_iso, end_iso) \<Rightarrow>
            (let filter_obj = month_filter start_iso end_iso;
                 (evs, e) = scroll_query_with_filter collection filter_obj 500 replies;
                 (sent, le) = consume sales_step evs e agg_init
             in (sent, agg_outcome_of le (\<lambda>st.
                   PDict [(''collection'', PStr collection), (''year'', PInt year),
                          (''month'', PInt month), (''records_aggregated'', PInt (count st)),
                          (''records_skipped'', PInt (bad_rows st)),
                          (''total_sales'', PFloat (total st))])))))"

definition aggregate_volume ::
  "int \<Rightarrow> int \<Rightarrow> string \<Rightarrow> http_reply list \<Rightarrow> http_request list \<times> agg_outcome" where
  "aggregate_volume year month collection replies =
     (if \<not> (1 \<le> month \<and> month \<le> 12) then ([], HTTPException 400 ''month must be 1..12'')
      else (case iso_month_range year month of
          Inl e \<Rightarrow> ([], HTTPException 400 ''invalid year/month'')
        | Inr (start_iso, end_iso) \<Rightarrow>
            (let filter_obj = month_filter start_iso end_iso;
                 (evs, e) = scroll_query_with_filter collection filter_obj 500 replies;
                 (sent, le) = consume volume_step evs e agg_init
             in (sent, agg_outcome_of le (\<lambda>st.
                   PDict [(''collection'', PStr collection), (''year'', PInt year),
                          (''month'', PInt month), (''records_aggregated'', PInt (count st)),
                          (''records_skipped'', PInt (bad_rows st)),
                          (''total_units'', PFloat (total st))])))))"

section \<open>The search shim (\<^verbatim>\<open>http_search_collection\<close>, src/main.py)\<close>










section \<open>Intent detection (\<^verbatim>\<open>parse_year_month_from_text\<close>, \<^verbatim>\<open>chat\<close>, src/main.py)\<close>

text \<open>
  \<^verbatim>\<open>re.search\<close> scans the start positions from the left and returns the match at the
  first position where the pattern matches.  The pattern is given as a matcher of the
  text that remains at a position; the matcher also sees the character before the
  position, which \<^verbatim>\<open>\b\<close> needs.
\<close>

fun re_search :: "(char option \<Rightarrow> string \<Rightarrow> 'a option) \<Rightarrow> char option \<Rightarrow> string \<Rightarrow> 'a option" where
  "re_search m prev [] = m prev []"
| "re_search m prev (c # cs) =
     (case m prev (c # cs) of Some r \<Rightarrow> Some r | None \<Rightarrow> re_search m (Some c) cs)"

text \<open>\<^verbatim>\<open>\w\<close> on ASCII text, and \<^verbatim>\<open>\b\<close> between the previous character and the rest.\<close>

definition is_word :: "char \<Rightarrow> bool" where
  "is_word c =
     (c \<in> set ''abcdefghijklmnopqrstuvwxyzABCDEFGHIJKLMNOPQRSTUVWXYZ0123456789_'')"

definition word_boundary :: "char option \<Rightarrow> string \<Rightarrow> bool" where
  "word_boundary prev s =
     ((case prev of None \<Rightarrow> False | Some p \<Rightarrow> is_word p) \<noteq>
      (case s of [] \<Rightarrow> False | c # cs \<Rightarrow> is_word c))"

text \<open>The class \<^verbatim>\<open>[\s,]\<close>.\<close>

definition sep_ws :: "char \<Rightarrow> bool" where
  "sep_ws c = (py_isspace c \<or> c = CHR '','')"

text \<open>The group \<^verbatim>\<open>(20\d{2})\<close> at the head of the text.\<close>

definition year_prefix :: "string \<Rightarrow> string option" where
  "year_prefix s =
     (case s of
        a # b # c # d # rest \<Rightarrow>
          if a = CHR ''2'' \<and> b = CHR ''0'' \<and> is_digit c \<and> is_digit d then Some [a, b, c, d]
          else None
      | _ \<Rightarrow> None)"

definition MONTH_MAP :: "(string \<times> int) list" where
  "MONTH_MAP =
     [(''january'', 1), (''jan'', 1), (''february'', 2), (''feb'', 2), (''march'', 3),
      (''mar'', 3), (''april'', 4), (''apr'', 4), (''may'', 5), (''june'', 6), (''jun'', 6),
      (''july'', 7), (''jul'', 7), (''august'', 8), (''aug'', 8), (''september'', 9),
      (''sep'', 9), (''sept'', 9), (''october'', 10), (''oct'', 10), (''november'', 11),
      (''nov'', 11), (''december'', 12), (''dec'', 12)]"

text \<open>The alternatives of a group are tried in order; the first that lets the rest match wins.\<close>

fun first_some :: "('a \<Rightarrow> 'b option) \<Rightarrow> 'a list \<Rightarrow> 'b option" where
  "first_some f [] = None"
| "first_some f (x # xs) = (case f x of Some r \<Rightarrow> Some r | None \<Rightarrow> first_some f xs)"

text \<open>
  \<^verbatim>\<open>(20\d{2})[-/\.](\d{1,2})\<close> at a position: the groups 1 and 2.  The second group is
  greedy: it takes two digits when two are there.
\<close>

definition match_numeric :: "char option \<Rightarrow> string \<Rightarrow> (string \<times> string) option" where
  "match_numeric prev s =
     (case year_prefix s of
        None \<Rightarrow> None
      | Some y \<Rightarrow>
          (case drop 4 s of
             e # f # rest \<Rightarrow>
               if e \<in> set ''-/.'' \<and> is_digit f
               then Some (y, case rest of
                               [] \<Rightarrow> [f]
                             | g # rest' \<Rightarrow> if is_digit g then [f, g] else [f])
               else None
           | _ \<Rightarrow> None))"

text \<open>
  \<^verbatim>\<open>\b(january|jan|...)\b[\s,]+(20\d{2})\<close> at a position: the entry of \<open>MONTH_MAP\<close>
  whose key is group 1, and group 2.  The year starts with a digit, which is not in
  \<^verbatim>\<open>[\s,]\<close>, so the run \<^verbatim>\<open>[\s,]+\<close> can only be the longest one.
\<close>

definition match_name_year :: "char option \<Rightarrow> string \<Rightarrow> ((string \<times> int) \<times> string) option" where
  "match_name_year prev s =
     (if word_boundary prev s then
        first_some (\<lambda>entry.
          if fst entry \<noteq> [] \<and> starts_with (fst entry) s then
            (let rest = drop (length (fst entry)) s
             in if word_boundary (Some (last (fst entry))) rest \<and> takeWhile sep_ws rest \<noteq> []
                then (case year_prefix (dropWhile sep_ws rest) of
                        Some y \<Rightarrow> Some (entry, y)
                      | None \<Rightarrow> None)
                else None)
          else None) MONTH_MAP
      else None)"

text \<open>
  \<^verbatim>\<open>(20\d{2})[\s,]+\b(january|jan|...)\b\<close> at a position.  After a shorter run of
  \<^verbatim>\<open>[\s,]\<close> the next character is again in \<^verbatim>\<open>[\s,]\<close> and no month name starts there, so
  the run can only be the longest one.
\<close>

definition match_year_name :: "char option \<Rightarrow> string \<Rightarrow> (string \<times> (string \<times> int)) option" where
  "match_year_name prev s =
     (case year_prefix s of
        None \<Rightarrow> None
      | Some y \<Rightarrow>
          (let seps = takeWhile sep_ws (drop 4 s); rest = dropWhile sep_ws (drop 4 s)
           in if seps \<noteq> [] \<and> word_boundary (Some (last seps)) rest then
                first_some (\<lambda>entry.
                  if fst entry \<noteq> [] \<and> starts_with (fst entry) rest
                     \<and> word_boundary (Some (last (fst entry))) (drop (length (fst entry)) rest)
                  then Some (y, entry) else None) MONTH_MAP
              else None))"

definition parse_year_month_from_text :: "string \<Rightarrow> pyval \<times> pyval" where
  "parse_year_month_from_text text =
     (let t = lower text
      in case (case re_search match_numeric None t of
                 None \<Rightarrow> None
               | Some (y, m) \<Rightarrow>
                   if 1 \<le> digits_val m \<and> digits_val m \<le> 12
                   then Some (PInt (int (digits_val y)), PInt (int (digits_val m)))
                   else None) of
           Some r \<Rightarrow> r
         | None \<Rightarrow>
             (case re_search match_name_year None t of
                Some (entry, y) \<Rightarrow> (PInt (int (digits_val y)), PInt (snd entry))
              | None \<Rightarrow>
                  (case re_search match_year_name None t of
                     Some (y, entry) \<Rightarrow> (PInt (int (digits_val y)), PInt (snd entry))
                   | None \<Rightarrow> (PNone, PNone))))"

text \<open>\<^verbatim>\<open>k in t\<close> for strings.\<close>

fun is_substring :: "string \<Rightarrow> string \<Rightarrow> bool" where
  "is_substring k [] = (k = [])"
| "is_substring k (c # cs) = (starts_with k (c # cs) \<or> is_substring k cs)"

definition revenue_keywords :: "string list" where
  "revenue_keywords =
     [''total sales'', ''sum of sales'', ''aggregate sales'', ''revenue'',
      ''sales amount'', ''total revenue'', ''how much sales'', ''overall sales'']"

definition volume_keywords :: "string list" where
  "volume_keywords =
     [''total units'', ''units sold'', ''sales volume'', ''quantity sold'',
      ''total quantity'', ''overall volume'']"

definition is_revenue_aggregation :: "string \<Rightarrow> bool" where
  "is_revenue_aggregation text = list_ex (\<lambda>k. is_substring k (lower text)) revenue_keywords"

definition is_volume_aggregation :: "string \<Rightarrow> bool" where
  "is_volume_aggregation text = list_ex (\<lambda>k. is_substring k (lower text)) volume_keywords"

text \<open>
  The branch that \<^verbatim>\<open>chat\<close> takes, with the year and month it passes to the aggregator.
\<close>

datatype intent = RevenueAggregation pyval pyval | VolumeAggregation pyval pyval | Retrieval

definition chat_route :: "string \<Rightarrow> intent" where
  "chat_route question =
     (let (year, month) = parse_year_month_from_text question
      in if is_revenue_aggregation question \<and> truthy year \<and> truthy month
         then RevenueAggregation year month
         else if is_volume_aggregation question \<and> truthy year \<and> truthy month
         then VolumeAggregation year month
         else Retrieval)"

section \<open>The payload normalizer (\<^verbatim>\<open>normalize_metadata\<close>, src/embed.py)\<close>

subsection \<open>Conversions of Python values\<close>

text \<open>\<^verbatim>\<open>str(n)\<close> of an \<^verbatim>\<open>int\<close>.\<close>

definition str_of_int :: "int \<Rightarrow> string" where
  "str_of_int n = (if n < 0 then CHR ''-'' # dec_digits (nat (- n)) else dec_digits (nat n))"

text \<open>
  \<^verbatim>\<open>str(v)\<close>.  The text of a float, a list or a dictionary (their \<^verbatim>\<open>repr\<close>) is not
  modelled: it is given by the parameter \<open>repr_of\<close>.  A \<^verbatim>\<open>datetime\<close> has no microseconds
  and no time zone here.
\<close>

definition py_str :: "(pyval \<Rightarrow> string) \<Rightarrow> pyval \<Rightarrow> string" where
  "py_str repr_of v =
     (case v of
        PNone \<Rightarrow> ''None''
      | PBool b \<Rightarrow> (if b then ''True'' else ''False'')
      | PInt n \<Rightarrow> str_of_int n
      | PStr s \<Rightarrow> s
      | PDate y m d \<Rightarrow>
          zero_pad 4 (nat y) @ ''-'' @ zero_pad 2 (nat m) @ ''-'' @ zero_pad 2 (nat d)
      | PDateTime dt \<Rightarrow>
          zero_pad 4 (nat (dt_year dt)) @ ''-'' @ zero_pad 2 (nat (dt_month dt)) @ ''-'' @
          zero_pad 2 (nat (dt_day dt)) @ '' '' @ zero_pad 2 (nat (dt_hour dt)) @ '':'' @
          zero_pad 2 (nat (dt_minute dt)) @ '':'' @ zero_pad 2 (nat (dt_second dt))
      | other \<Rightarrow> repr_of other)"

text \<open>\<^verbatim>\<open>int(v)\<close> of a value that is an instance of \<^verbatim>\<open>int\<close> or \<^verbatim>\<open>float\<close>.\<close>

definition py_int :: "pyval \<Rightarrow> py_exc + int" where
  "py_int v =
     (case v of
        PInt n \<Rightarrow> Inr n
      | PBool b \<Rightarrow> Inr (if b then 1 else 0)
      | PFloat f \<Rightarrow> int_of_float f
      | other \<Rightarrow> Inl TypeError)"

text \<open>\<^verbatim>\<open>strftime("%Y-%m-%dT%H:%M:%SZ")\<close>.\<close>

definition strftime_z :: "datetime \<Rightarrow> string" where
  "strftime_z dt = fmt_datetime dt @ ''Z''"

text \<open>\<^verbatim>\<open>excel_serial_to_date\<close>: the day count from 1899-12-30, as a timestamp.\<close>

definition excel_serial_to_date :: "int \<Rightarrow> py_exc + string" where
  "excel_serial_to_date serial =
     (case add_timedelta \<lparr>dt_year = 1899, dt_month = 12, dt_day = 30,
                           dt_hour = 0, dt_minute = 0, dt_second = 0\<rparr> serial 0 of
        Inl e \<Rightarrow> Inl e
      | Inr dt \<Rightarrow> Inr (strftime_z dt))"

subsection \<open>\<^verbatim>\<open>datetime.strptime(s, "%Y-%m-%d")\<close>\<close>

text \<open>
  \<^verbatim>\<open>strptime\<close> matches the regular expression of the format at the start of the text,
  \<^verbatim>\<open>(\d\d\d\d)-(1[0-2]|0[1-9]|[1-9])-(3[0-1]|[1-2]\d|0[1-9]|[1-9]| [1-9])\<close>, raises
  \<^verbatim>\<open>ValueError\<close> when it does not match or when text remains after the match, and
  builds the date, which raises \<^verbatim>\<open>ValueError\<close> when the day is not in the month.
  Each function below gives the ways a group can match at the head of the text, in the
  order of its alternatives, each with the text that remains.
\<close>

definition nonzero_digit :: "char \<Rightarrow> bool" where
  "nonzero_digit c = (c \<in> set ''123456789'')"

definition month_group :: "string \<Rightarrow> (string \<times> string) list" where
  "month_group s =
     (case s of
        a # b # rest \<Rightarrow>
          (if a = CHR ''1'' \<and> b \<in> set ''012'' then [([a, b], rest)] else []) @
          (if a = CHR ''0'' \<and> nonzero_digit b then [([a, b], rest)] else []) @
          (if nonzero_digit a then [([a], b # rest)] else [])
      | [a] \<Rightarrow> (if nonzero_digit a then [([a], [])] else [])
      | [] \<Rightarrow> [])"

definition day_group :: "string \<Rightarrow> (string \<times> string) list" where
  "day_group s =
     (case s of
        a # b # rest \<Rightarrow>
          (if a = CHR ''3'' \<and> b \<in> set ''01'' then [([a, b], rest)] else []) @
          (if a \<in> set ''12'' \<and> is_digit b then [([a, b], rest)] else []) @
          (if a = CHR ''0'' \<and> nonzero_digit b then [([a, b], rest)] else []) @
          (if nonzero_digit a then [([a], b # rest)] else []) @
          (if a = CHR '' '' \<and> nonzero_digit b then [([b], rest)] else [])
      | [a] \<Rightarrow> (if nonzero_digit a then [([a], [])] else [])
      | [] \<Rightarrow> [])"

text \<open>The match of the whole expression: the three groups and the text that remains.\<close>

definition match_ymd :: "string \<Rightarrow> (string \<times> string \<times> string \<times> string) option" where
  "match_ymd s =
     (if length s \<ge> 5 \<and> list_all is_digit (take 4 s) \<and> s ! 4 = CHR ''-'' then
        first_some (\<lambda>mr.
          (case snd mr of
             [] \<Rightarrow> None
           | c # after \<Rightarrow>
               if c = CHR ''-'' then
                 (case day_group after of
                    [] \<Rightarrow> None
                  | dr # others \<Rightarrow> Some (take 4 s, fst mr, fst dr, snd dr))
               else None)) (month_group (drop 5 s))
      else None)"

definition strptime_ymd :: "string \<Rightarrow> py_exc + datetime" where
  "strptime_ymd s =
     (case match_ymd s of
        None \<Rightarrow> Inl ValueError
      | Some (y, m, d, rest) \<Rightarrow>
          if rest \<noteq> [] then Inl ValueError
          else mk_datetime (int (digits_val y)) (int (digits_val m)) (int (digits_val d)))"

subsection \<open>The schemas and the normalizer\<close>

text \<open>
  \<^verbatim>\<open>SCHEMAS\<close>: for each table its class and its properties; a property is given with
  the first element of its \<^verbatim>\<open>dataType\<close> list.
\<close>

definition SCHEMAS :: "(string \<times> string \<times> (string \<times> string) list) list" where
  "SCHEMAS =
     [(''product_cost'', ''product_cost_staging'',
        [(''month_year'', ''date''), (''sales_vol'', ''int''), (''sum_profit'', ''number''),
         (''cost_per_unit'', ''string''), (''rsp_per_unit'', ''string''),
         (''product_name'', ''string'')]),
      (''transactions_main'', ''transactions_main_staging'',
        [(''sub_category'', ''string''), (''city'', ''string''), (''order_id'', ''string''),
         (''sales'', ''string''), (''product_name'', ''string''), (''country'', ''string''),
         (''state'', ''string''), (''quantity'', ''int''), (''product_id'', ''string''),
         (''ship_date'', ''date''), (''discount'', ''number''), (''postal_code'', ''string''),
         (''ship_mode'', ''string''), (''customer_name'', ''string''),
         (''month_year'', ''date''), (''region'', ''string''), (''order_date'', ''date''),
         (''customer_id'', ''string''), (''segment'', ''string''), (''category'', ''string''),
         (''profit'', ''number''), (''row_id'', ''int'')]),
      (''target_cost'', ''target_cost_staging'',
        [(''target_cost'', ''string''), (''product_name'', ''string''),
         (''month_year'', ''date'')]),
      (''sales_vol'', ''sales_vol_staging'',
        [(''sales'', ''string''), (''product_name'', ''string''), (''sales_vol'', ''int''),
         (''month_year'', ''date'')]),
      (''product_inventory_init'', ''product_inventory_init_staging'',
        [(''product_name'', ''string''), (''inventory_stock_init'', ''int''),
         (''month_year'', ''date'')])]"

definition build_type_map ::
  "(string \<times> string \<times> (string \<times> string) list) list \<Rightarrow> (string \<times> (string \<times> string) list) list" where
  "build_type_map schemas = map (\<lambda>(tbl, cls, props). (cls, props)) schemas"

definition TYPE_MAP :: "(string \<times> (string \<times> string) list) list" where
  "TYPE_MAP = build_type_map SCHEMAS"

text \<open>The \<^verbatim>\<open>try\<close> block: the value stored for a field of the expected type, or the exception.\<close>

definition coerce :: "(pyval \<Rightarrow> string) \<Rightarrow> string \<Rightarrow> pyval \<Rightarrow> py_exc + pyval" where
  "coerce repr_of expected v =
     (if expected = ''date'' then
        (case v of
           PInt n \<Rightarrow> map_sum id PStr (case py_int v of Inl e \<Rightarrow> Inl e | Inr i \<Rightarrow> excel_serial_to_date i)
         | PBool b \<Rightarrow> map_sum id PStr (case py_int v of Inl e \<Rightarrow> Inl e | Inr i \<Rightarrow> excel_serial_to_date i)
         | PFloat f \<Rightarrow> map_sum id PStr (case py_int v of Inl e \<Rightarrow> Inl e | Inr i \<Rightarrow> excel_serial_to_date i)
         | PDate y m d \<Rightarrow>
             Inr (PStr (strftime_z \<lparr>dt_year = y, dt_month = m, dt_day = d,
                                     dt_hour = 0, dt_minute = 0, dt_second = 0\<rparr>))
         | PDateTime dt \<Rightarrow>
             Inr (PStr (strftime_z \<lparr>dt_year = dt_year dt, dt_month = dt_month dt,
                                     dt_day = dt_day dt,
                                     dt_hour = 0, dt_minute = 0, dt_second = 0\<rparr>))
         | other \<Rightarrow>
             (case strptime_ymd (py_str repr_of v) of
                Inl e \<Rightarrow> Inl e
              | Inr dt \<Rightarrow> Inr (PStr (strftime_z dt))))
      else if expected = ''int'' then
        (case py_float v of
           Inl e \<Rightarrow> Inl e
         | Inr f \<Rightarrow> (case int_of_float f of Inl e \<Rightarrow> Inl e | Inr i \<Rightarrow> Inr (PInt i)))
      else if expected = ''number'' then
        (case py_float v of Inl e \<Rightarrow> Inl e | Inr f \<Rightarrow> Inr (PFloat f))
      else if expected = ''string'' then Inr (PStr (py_str repr_of v))
      else Inr (PStr (py_str repr_of v)))"

text \<open>The \<^verbatim>\<open>except\<close> block: the value stored when the \<^verbatim>\<open>try\<close> block raised.\<close>

definition fallback :: "(pyval \<Rightarrow> string) \<Rightarrow> string \<Rightarrow> pyval \<Rightarrow> pyval" where
  "fallback repr_of expected v =
     (if expected = ''int'' then PInt 0
      else if expected = ''number'' then PFloat (Finite 0)
      else if expected = ''date'' then
        PStr (strftime_z \<lparr>dt_year = 1970, dt_month = 1, dt_day = 1,
                           dt_hour = 0, dt_minute = 0, dt_second = 0\<rparr>)
      else PStr (if v \<noteq> PNone then py_str repr_of v else ''''))"

text \<open>One round of the loop over \<^verbatim>\<open>doc.items()\<close>.\<close>

definition normalize_item ::
  "(pyval \<Rightarrow> string) \<Rightarrow> (string \<times> string) list \<Rightarrow> (string \<times> pyval) list \<Rightarrow> string \<times> pyval \<Rightarrow>
     (string \<times> pyval) list" where
  "normalize_item repr_of type_for_class normalized item =
     (case item of (k, v) \<Rightarrow>
        (case map_of type_for_class k of
           None \<Rightarrow> normalized
         | Some expected \<Rightarrow>
             if v = PNone then normalized
             else dict_set normalized k
                    (case coerce repr_of expected v of
                       Inr x \<Rightarrow> x
                     | Inl e \<Rightarrow> fallback repr_of expected v)))"

text \<open>
  \<^verbatim>\<open>normalize_metadata\<close> with the type map as a parameter; the source reads the global
  \<open>TYPE_MAP\<close>.
\<close>

definition normalize_with ::
  "(pyval \<Rightarrow> string) \<Rightarrow> (string \<times> (string \<times> string) list) list \<Rightarrow> (string \<times> pyval) list \<Rightarrow>
     string \<Rightarrow> (string \<times> pyval) list" where
  "normalize_with repr_of type_map doc class_name =
     foldl (normalize_item repr_of
              (case map_of type_map class_name of None \<Rightarrow> [] | Some tm \<Rightarrow> tm)) [] doc"

definition normalize_metadata ::
  "(pyval \<Rightarrow> string) \<Rightarrow> (string \<times> pyval) list \<Rightarrow> string \<Rightarrow> (string \<times> pyval) list" where
  "normalize_metadata repr_of doc class_name = normalize_with repr_of TYPE_MAP doc class_name"

section \<open>Notions used to state the properties\<close>

text \<open>The first instant of a month, its last second, and the first instant of the next month.\<close>

definition first_instant :: "int \<Rightarrow> int \<Rightarrow> datetime" where
  "first_instant y m =
     \<lparr>dt_year = y, dt_month = m, dt_day = 1, dt_hour = 0, dt_minute = 0, dt_second = 0\<rparr>"

definition last_second :: "int \<Rightarrow> int \<Rightarrow> datetime" where
  "last_second y m =
     \<lparr>dt_year = y, dt_month = m, dt_day = days_in_month y m,
      dt_hour = 23, dt_minute = 59, dt_second = 59\<rparr>"

definition next_month_start :: "int \<Rightarrow> int \<Rightarrow> datetime" where
  "next_month_start y m = (if m = 12 then first_instant (y + 1) 1 else first_instant y (m + 1))"

text \<open>
  A payload holds the revenue value \<open>v\<close>: one of the two revenue fields is bound to \<open>v\<close>
  and the other one is missing.
\<close>

definition revenue_value :: "(string \<times> pyval) list \<Rightarrow> pyval \<Rightarrow> bool" where
  "revenue_value kvs v =
     ((map_of kvs ''sales'' = Some v \<and> map_of kvs ''sales_amount'' = None) \<or>
      (map_of kvs ''sales'' = None \<and> map_of kvs ''sales_amount'' = Some v))"

text \<open>The dictionary that \<^verbatim>\<open>aggregate_sales\<close> returns.\<close>

definition sales_result :: "string \<Rightarrow> int \<Rightarrow> int \<Rightarrow> int \<Rightarrow> int \<Rightarrow> pyfloat \<Rightarrow> pyval" where
  "sales_result collection year month aggregated skipped tot =
     PDict [(''collection'', PStr collection), (''year'', PInt year), (''month'', PInt month),
            (''records_aggregated'', PInt aggregated), (''records_skipped'', PInt skipped),
            (''total_sales'', PFloat tot)]"

definition volume_result :: "string \<Rightarrow> int \<Rightarrow> int \<Rightarrow> int \<Rightarrow> int \<Rightarrow> pyfloat \<Rightarrow> pyval" where
  "volume_result collection year month aggregated skipped tot =
     PDict [(''collection'', PStr collection), (''year'', PInt year), (''month'', PInt month),
            (''records_aggregated'', PInt aggregated), (''records_skipped'', PInt skipped),
            (''total_units'', PFloat tot)]"

text \<open>A scroll response with status 200 that carries the given points and cursor.\<close>

definition scroll_page :: "pyval list \<Rightarrow> pyval \<Rightarrow> http_reply" where
  "scroll_page points cursor =
     Response 200 (Some (PDict [(''result'',
        PDict [(''points'', PList points), (''next_page_offset'', cursor)])]))"

definition point :: "int \<Rightarrow> pyval \<Rightarrow> pyval" where
  "point i payload = PDict [(''id'', PInt i), (''payload'', payload)]"

















text \<open>
  A timestamp in the form of RFC 3339: a full date, \<open>T\<close> (or \<open>t\<close> or a space), a full
  time with an optional fraction, and \<open>Z\<close> or a numeric offset.
\<close>

definition two_digits :: "string \<Rightarrow> bool" where
  "two_digits s = (length s = 2 \<and> list_all is_digit s)"

definition rfc3339_offset :: "string \<Rightarrow> bool" where
  "rfc3339_offset s =
     (s = ''Z'' \<or> s = ''z'' \<or>
      (length s = 6 \<and> (s ! 0 = CHR ''+'' \<or> s ! 0 = CHR ''-'') \<and> two_digits (take 2 (drop 1 s))
       \<and> s ! 3 = CHR '':'' \<and> two_digits (drop 4 s)))"

definition rfc3339_timestamp :: "string \<Rightarrow> bool" where
  "rfc3339_timestamp s =
     (length s \<ge> 20 \<and> list_all is_digit (take 4 s) \<and> s ! 4 = CHR ''-''
      \<and> two_digits (take 2 (drop 5 s)) \<and> s ! 7 = CHR ''-'' \<and> two_digits (take 2 (drop 8 s))
      \<and> s ! 10 \<in> set ''Tt '' \<and> two_digits (take 2 (drop 11 s)) \<and> s ! 13 = CHR '':''
      \<and> two_digits (take 2 (drop 14 s)) \<and> s ! 16 = CHR '':'' \<and> two_digits (take 2 (drop 17 s))
      \<and> (let tail = drop 19 s
          in if tail \<noteq> [] \<and> hd tail = CHR ''.''
             then takeWhile is_digit (tl tail) \<noteq> [] \<and> rfc3339_offset (dropWhile is_digit (tl tail))
             else rfc3339_offset tail))"

text \<open>The sentinel of the normalizer for a date.\<close>

definition epoch_sentinel :: string where
  "epoch_sentinel = ''1970-01-01T00:00:00Z''"

text \<open>A stand-in for \<^verbatim>\<open>repr\<close> in examples.\<close>

definition sample_repr :: "pyval \<Rightarrow> string" where
  "sample_repr v = (case v of PFloat f \<Rightarrow> ''0.5'' | other \<Rightarrow> ''[]'')"

text \<open>The value stored for a field: that of the \<^verbatim>\<open>try\<close> block, else that of the \<^verbatim>\<open>except\<close> block.\<close>

definition field_value :: "(pyval \<Rightarrow> string) \<Rightarrow> string \<Rightarrow> pyval \<Rightarrow> pyval" where
  "field_value repr_of t v =
     (case coerce repr_of t v of Inr x \<Rightarrow> x | Inl e \<Rightarrow> fallback repr_of t v)"

text \<open>The schema of a class in a type map: \<^verbatim>\<open>type_map.get(class_name, {})\<close>.\<close>

definition schema_of :: "(string \<times> (string \<times> string) list) list \<Rightarrow> string \<Rightarrow> (string \<times> string) list" where
  "schema_of type_map class_name =
     (case map_of type_map class_name of None \<Rightarrow> [] | Some tm \<Rightarrow> tm)"

section \<open>Properties\<close>

declare str_replace.simps [simp del] dec_digits.simps [simp del]

lemmas float_eval = float_of_str_def strip_def py_isspace_def is_digit_def lower_def to_lower_def
  parse_decimal_def digits_val_def digit_val_def round_float_def DBL_OVERFLOW_def

subsection \<open>The month range\<close>

lemma str_replace_absent:
  "old \<noteq> [] \<Longrightarrow> hd old \<notin> set s \<Longrightarrow> str_replace old new (s @ old) = s @ new"
proof (induction s)
  case Nil
  have "starts_with old old" by (induction old) auto
  then show ?case
    using Nil by (simp add: str_replace.simps[of old new old] str_replace.simps[of old new "[]"])
next
  case (Cons c s)
  have "\<not> starts_with old ((c # s) @ old)" using Cons.prems by (cases old) auto
  then show ?case using Cons by (simp add: str_replace.simps[of old new "c # s @ old"])
qed

lemma digit_char_no_plus: "digit_char k \<noteq> CHR ''+''" "CHR ''+'' \<noteq> digit_char k"
proof -
  have "digit_char k \<in> set ''0123456789''"
    unfolding digit_char_def by (rule nth_mem) simp
  moreover have "CHR ''+'' \<notin> set ''0123456789''" by simp
  ultimately show "digit_char k \<noteq> CHR ''+''" "CHR ''+'' \<noteq> digit_char k" by metis+
qed

lemma dec_digits_no_plus: "CHR ''+'' \<notin> set (dec_digits n)"
proof (induction n rule: dec_digits.induct)
  case (1 n)
  then show ?case by (subst dec_digits.simps) (simp add: digit_char_no_plus)
qed

lemma zero_pad_no_plus: "CHR ''+'' \<notin> set (zero_pad w n)"
  by (auto simp: zero_pad_def dec_digits_no_plus)

lemma fmt_datetime_no_plus: "CHR ''+'' \<notin> set (fmt_datetime dt)"
  by (simp add: fmt_datetime_def zero_pad_no_plus)

lemma iso_z: "str_replace ''+00:00'' ''Z'' (isoformat_utc dt) = fmt_datetime dt @ ''Z''"
  unfolding isoformat_utc_def
  by (rule str_replace_absent) (simp_all add: fmt_datetime_no_plus)

lemma days_in_month_ge: "28 \<le> days_in_month y m"
  by (simp add: days_in_month_def)

lemma minus_second:
  assumes "MINYEAR \<le> y" "y \<le> MAXYEAR" "1 \<le> m" "m \<le> 12" "m = 12 \<longrightarrow> y < MAXYEAR"
  shows "add_timedelta (next_month_start y m) 0 (- 1) = Inr (last_second y m)"
  using assms days_in_month_ge[of y "m + 1"] days_in_month_ge[of "y + 1" 1]
  by (auto simp: add_timedelta_def next_month_start_def first_instant_def last_second_def
      normalize_pair_def normalize_y_m_d_def Let_def MINYEAR_def MAXYEAR_def days_in_month_def)

lemma plus_second:
  assumes "MINYEAR \<le> y" "y \<le> MAXYEAR" "1 \<le> m" "m \<le> 12" "m = 12 \<longrightarrow> y < MAXYEAR"
  shows "add_timedelta (last_second y m) 0 1 = Inr (next_month_start y m)"
  using assms days_in_month_ge[of y m]
  by (auto simp: add_timedelta_def next_month_start_def first_instant_def last_second_def
      normalize_pair_def normalize_y_m_d_def Let_def MINYEAR_def MAXYEAR_def)

lemma mk_first:
  "MINYEAR \<le> y \<Longrightarrow> y \<le> MAXYEAR \<Longrightarrow> 1 \<le> m \<Longrightarrow> m \<le> 12 \<Longrightarrow>
     mk_datetime y m 1 = Inr (first_instant y m)"
  using days_in_month_ge[of y m] by (simp add: mk_datetime_def first_instant_def)

text \<open>
  Claim C6.  For every year and month on which the two \<^verbatim>\<open>datetime\<close> constructions are
  in range (years 1 to 9999, months 1 to 12, and not December 9999, whose next month is
  in year 10000), \<^verbatim>\<open>iso_month_range\<close> returns the first instant of the month and the
  last second of the month, both in UTC with the suffix Z.  The end is the first instant
  of the next month minus one second: subtracting a second from the start of the next
  month gives it, and adding a second to it gives the start of the next month, which is
  1 January of the next year for December.
\<close>

theorem iso_month_range_bounds:
  assumes "MINYEAR \<le> year" "year \<le> MAXYEAR" "1 \<le> month" "month \<le> 12"
    and "month = 12 \<longrightarrow> year < MAXYEAR"
  shows "iso_month_range year month =
           Inr (fmt_datetime (first_instant year month) @ ''Z'',
                fmt_datetime (last_second year month) @ ''Z'')
         \<and> add_timedelta (next_month_start year month) 0 (- 1) = Inr (last_second year month)
         \<and> add_timedelta (last_second year month) 0 1 = Inr (next_month_start year month)"
proof -
  have m: "add_timedelta (next_month_start year month) 0 (- 1) = Inr (last_second year month)"
    using assms by (rule minus_second)
  have p: "add_timedelta (last_second year month) 0 1 = Inr (next_month_start year month)"
    using assms by (rule plus_second)
  have s: "mk_datetime year month 1 = Inr (first_instant year month)"
    using assms by (simp add: mk_first)
  have r: "iso_month_range year month =
           Inr (fmt_datetime (first_instant year month) @ ''Z'',
                fmt_datetime (last_second year month) @ ''Z'')"
  proof (cases "month = 12")
    case True
    then have "mk_datetime (year + 1) 1 1 = Inr (next_month_start year month)"
      using assms by (simp add: mk_first next_month_start_def MINYEAR_def MAXYEAR_def)
    then show ?thesis using True s m by (simp add: iso_month_range_def iso_z)
  next
    case False
    then have "mk_datetime year (month + 1) 1 = Inr (next_month_start year month)"
      using assms by (simp add: mk_first next_month_start_def)
    then show ?thesis using False s m by (simp add: iso_month_range_def iso_z)
  qed
  show ?thesis using r m p by simp
qed

theorem iso_month_range_bounds_witness:
  "iso_month_range 2024 12 = Inr (''2024-12-01T00:00:00Z'', ''2024-12-31T23:59:59Z'')
   \<and> add_timedelta (first_instant 2025 1) 0 (- 1) = Inr (last_second 2024 12)
   \<and> add_timedelta (last_second 2024 12) 0 1 = Inr (first_instant 2025 1)
   \<and> iso_month_range 2024 2 = Inr (''2024-02-01T00:00:00Z'', ''2024-02-29T23:59:59Z'')
   \<and> add_timedelta (first_instant 2024 3) 0 (- 1) = Inr (last_second 2024 2)"
  using iso_month_range_bounds[of 2024 12] iso_month_range_bounds[of 2024 2]
  by (simp add: MINYEAR_def MAXYEAR_def first_instant_def last_second_def next_month_start_def
      fmt_datetime_def zero_pad_def dec_digits.simps digit_char_def days_in_month_def is_leap_def)

lemma range_2024_3:
  "iso_month_range 2024 3 = Inr (''2024-03-01T00:00:00Z'', ''2024-03-31T23:59:59Z'')"
  by (simp add: iso_month_range_def mk_datetime_def MINYEAR_def MAXYEAR_def days_in_month_def
      add_timedelta_def normalize_pair_def normalize_y_m_d_def isoformat_utc_def fmt_datetime_def
      zero_pad_def dec_digits.simps digit_char_def str_replace.simps)

lemma range_9999_12: "iso_month_range 9999 12 = Inl ValueError"
  by (simp add: iso_month_range_def mk_datetime_def MINYEAR_def MAXYEAR_def days_in_month_def)

subsection \<open>The month aggregators\<close>

lemma consume_yields:
  "snd (consume step evs e st) = snd (consume step (map Yield (yields_of evs)) e st)"
proof (induction evs arbitrary: st)
  case Nil
  then show ?case by simp
next
  case (Cons ev evs)
  show ?case
  proof (cases ev)
    case (Request r)
    then show ?thesis using Cons by (simp add: split_beta)
  next
    case (Yield p)
    then show ?thesis using Cons by (simp split: sum.splits)
  qed
qed

lemma pick_revenue:
  "revenue_value kvs v \<Longrightarrow> v = PNone \<or> truthy v \<Longrightarrow>
     py_or (dict_get kvs ''sales'') (dict_get kvs ''sales_amount'') = v"
  by (auto simp: revenue_value_def py_or_def dict_get_def)

lemma replace_1200: "str_replace '','' [] ''1,200'' = ''1200''"
  by (simp add: str_replace.simps)

lemma replace_bad: "str_replace '','' [] ''bad'' = ''bad''"
  by (simp add: str_replace.simps)

lemma float_1200: "float_of_str ''1200'' = Inr (Finite 1200)"
  by (simp add: float_eval)

lemma float_bad: "float_of_str ''bad'' = Inl ValueError"
  by (simp add: float_eval)

lemma accumulate_1200:
  "accumulate (PStr ''1,200'') st =
     st\<lparr>total := float_add (total st) (Finite 1200), count := count st + 1\<rparr>"
  by (simp add: accumulate_def replace_1200 float_1200)

lemma accumulate_bad: "accumulate (PStr ''bad'') st = st\<lparr>bad_rows := bad_rows st + 1\<rparr>"
  by (simp add: accumulate_def replace_bad float_bad)

lemma accumulate_none: "accumulate PNone st = st\<lparr>bad_rows := bad_rows st + 1\<rparr>"
  by (simp add: accumulate_def)

lemma scroll_one_page:
  "scroll_query_with_filter c f b [scroll_page ps PNone] =
     (if ps = [] then ([Request (scroll_request c f b PNone)], Exhausted)
      else (Request (scroll_request c f b PNone) # map (\<lambda>p. Yield (point_payload p)) ps,
            Exhausted))"
  by (simp add: scroll_query_with_filter_def scroll_page_def raises_for_status_def
      scroll_points_def dict_get_def scroll_next_offset_def py_or_def)

text \<open>
  Claim C5.  When the scroll over the month's filter ends after yielding exactly three
  payloads whose revenue values are the string \<open>1,200\<close>, the string \<open>bad\<close> and null, in
  this order, \<^verbatim>\<open>aggregate_sales\<close> returns \<open>records_aggregated = 1\<close>,
  \<open>records_skipped = 2\<close> and a total of \<open>1200.0\<close>.
\<close>

theorem aggregate_sales_three_records:
  assumes range: "1 \<le> month" "month \<le> 12"
      "iso_month_range year month = Inr (start_iso, end_iso)"
    and run: "scroll_query_with_filter collection (month_filter start_iso end_iso) 500 replies
                = (evs, Exhausted)"
    and three: "yields_of evs = [PDict p1, PDict p2, PDict p3]"
    and v1: "revenue_value p1 (PStr ''1,200'')"
    and v2: "revenue_value p2 (PStr ''bad'')"
    and v3: "revenue_value p3 PNone"
  shows "snd (aggregate_sales year month collection replies) =
           Returned (sales_result collection year month 1 2 (Finite 1200))"
proof -
  have pick: "py_or (dict_get p1 ''sales'') (dict_get p1 ''sales_amount'') = PStr ''1,200''"
    "py_or (dict_get p2 ''sales'') (dict_get p2 ''sales_amount'') = PStr ''bad''"
    "py_or (dict_get p3 ''sales'') (dict_get p3 ''sales_amount'') = PNone"
    using v1 v2 v3 by (simp_all add: pick_revenue)
  have "snd (consume sales_step evs Exhausted agg_init) =
          snd (consume sales_step (map Yield [PDict p1, PDict p2, PDict p3]) Exhausted agg_init)"
    using consume_yields[of sales_step evs Exhausted agg_init] three by simp
  also have "\<dots> = Completed \<lparr>total = Finite 1200, count = 1, bad_rows = 2\<rparr>"
    by (simp add: sales_step_def pick accumulate_1200 accumulate_bad accumulate_none agg_init_def
        round_float_def DBL_OVERFLOW_def)
  finally have "snd (consume sales_step evs Exhausted agg_init) =
      Completed \<lparr>total = Finite 1200, count = 1, bad_rows = 2\<rparr>" .
  then show ?thesis
    using range run
    by (simp add: aggregate_sales_def split_beta agg_outcome_of_def sales_result_def)
qed

theorem aggregate_sales_three_records_witness:
  "snd (aggregate_sales 2024 3 ''sales_vol_staging''
          [scroll_page [point 1 (PDict [(''sales'', PStr ''1,200'')]),
                        point 2 (PDict [(''sales'', PStr ''bad'')]),
                        point 3 (PDict [(''sales'', PNone)])] PNone]) =
     Returned (sales_result ''sales_vol_staging'' 2024 3 1 2 (Finite 1200))"
proof -
  have run: "scroll_query_with_filter ''sales_vol_staging''
               (month_filter ''2024-03-01T00:00:00Z'' ''2024-03-31T23:59:59Z'') 500
               [scroll_page [point 1 (PDict [(''sales'', PStr ''1,200'')]),
                             point 2 (PDict [(''sales'', PStr ''bad'')]),
                             point 3 (PDict [(''sales'', PNone)])] PNone] =
             ([Request (scroll_request ''sales_vol_staging''
                  (month_filter ''2024-03-01T00:00:00Z'' ''2024-03-31T23:59:59Z'') 500 PNone),
               Yield (PDict [(''sales'', PStr ''1,200'')]),
               Yield (PDict [(''sales'', PStr ''bad'')]),
               Yield (PDict [(''sales'', PNone)])], Exhausted)"
    by (simp add: scroll_one_page point_def point_payload_def dict_get_default_def)
  show ?thesis
    by (rule aggregate_sales_three_records[OF _ _ range_2024_3 run,
          where ?p1.0 = "[(''sales'', PStr ''1,200'')]" and ?p2.0 = "[(''sales'', PStr ''bad'')]"
            and ?p3.0 = "[(''sales'', PNone)]"])
       (simp_all add: revenue_value_def)
qed

text \<open>
  Claim C1, at the payloads where the code departs from it.  A payload whose only revenue
  field is \<open>sales = 0\<close> is counted as skipped, not aggregated, and so is a payload whose
  only volume field is \<open>sales_vol = 0\<close>; with \<open>sales = 0\<close> and \<open>sales_amount = 500\<close> the
  first present field is passed over and 500 is summed.  A zero in the last candidate
  field (\<open>sales_amount = 0\<close>) and the string \<open>0\<close> are aggregated.
\<close>

theorem aggregate_zero_value_skipped:
  "snd (aggregate_sales 2024 3 ''sales_vol_staging''
          [scroll_page [point 1 (PDict [(''sales'', PInt 0)])] PNone]) =
     Returned (sales_result ''sales_vol_staging'' 2024 3 0 1 (Finite 0))
   \<and> snd (aggregate_volume 2024 3 ''sales_vol_staging''
          [scroll_page [point 1 (PDict [(''sales_vol'', PInt 0)])] PNone]) =
     Returned (volume_result ''sales_vol_staging'' 2024 3 0 1 (Finite 0))
   \<and> snd (aggregate_sales 2024 3 ''sales_vol_staging''
          [scroll_page [point 1 (PDict [(''sales'', PInt 0), (''sales_amount'', PInt 500)])]
             PNone]) =
     Returned (sales_result ''sales_vol_staging'' 2024 3 1 0 (Finite 500))
   \<and> snd (aggregate_sales 2024 3 ''sales_vol_staging''
          [scroll_page [point 1 (PDict [(''sales_amount'', PInt 0)])] PNone]) =
     Returned (sales_result ''sales_vol_staging'' 2024 3 1 0 (Finite 0))
   \<and> snd (aggregate_sales 2024 3 ''sales_vol_staging''
          [scroll_page [point 1 (PDict [(''sales'', PStr ''0'')])] PNone]) =
     Returned (sales_result ''sales_vol_staging'' 2024 3 1 0 (Finite 0))"
  by (simp add: aggregate_sales_def aggregate_volume_def range_2024_3 float_eval
      str_replace.simps scroll_one_page point_def
      point_payload_def dict_get_default_def sales_step_def volume_step_def py_or_def dict_get_def
      accumulate_def agg_init_def agg_outcome_of_def sales_result_def volume_result_def
      float_of_int_def round_float_def DBL_OVERFLOW_def)

lemma iso_month_range_invalid:
  assumes "1 \<le> month" "month \<le> 12"
    and "year < MINYEAR \<or> MAXYEAR < year \<or> (year = MAXYEAR \<and> month = 12)"
  shows "iso_month_range year month = Inl ValueError"
proof (cases "MINYEAR \<le> year \<and> year \<le> MAXYEAR")
  case False
  then have "mk_datetime year month 1 = Inl ValueError" by (auto simp: mk_datetime_def)
  then show ?thesis by (simp add: iso_month_range_def)
next
  case True
  then have last: "year = MAXYEAR" "month = 12" using assms(3) by auto
  have "mk_datetime (MAXYEAR + 1) 1 1 = Inl ValueError" by (simp add: mk_datetime_def)
  moreover have "mk_datetime MAXYEAR 12 1 = Inr (first_instant MAXYEAR 12)"
    by (rule mk_first) (simp_all add: MINYEAR_def MAXYEAR_def)
  ultimately show ?thesis using last by (simp add: iso_month_range_def)
qed

text \<open>
  Claim C7.  For a month outside 1..12, and for a year and month on which
  \<^verbatim>\<open>iso_month_range\<close> raises (a year outside 1..9999, or December 9999),
  \<^verbatim>\<open>aggregate_sales\<close> and \<^verbatim>\<open>aggregate_volume\<close> raise an \<^verbatim>\<open>HTTPException\<close> with status
  400 and have sent no request, whatever the store would have replied; nothing is
  aggregated.
\<close>

theorem aggregate_rejects_before_scroll:
  "(\<not> (1 \<le> month \<and> month \<le> 12) \<longrightarrow>
      aggregate_sales year month collection replies =
        ([], HTTPException 400 ''month must be 1..12'')
      \<and> aggregate_volume year month collection replies =
        ([], HTTPException 400 ''month must be 1..12''))
   \<and> (1 \<le> month \<and> month \<le> 12 \<and> iso_month_range year month = Inl e \<longrightarrow>
      aggregate_sales year month collection replies =
        ([], HTTPException 400 ''invalid year/month'')
      \<and> aggregate_volume year month collection replies =
        ([], HTTPException 400 ''invalid year/month''))
   \<and> (1 \<le> month \<and> month \<le> 12
        \<and> (year < MINYEAR \<or> MAXYEAR < year \<or> (year = MAXYEAR \<and> month = 12)) \<longrightarrow>
      aggregate_sales year month collection replies =
        ([], HTTPException 400 ''invalid year/month'')
      \<and> aggregate_volume year month collection replies =
        ([], HTTPException 400 ''invalid year/month''))"
proof -
  have month: "\<not> (1 \<le> month \<and> month \<le> 12) \<longrightarrow>
      aggregate_sales year month collection replies =
        ([], HTTPException 400 ''month must be 1..12'')
      \<and> aggregate_volume year month collection replies =
        ([], HTTPException 400 ''month must be 1..12'')"
    by (simp add: aggregate_sales_def aggregate_volume_def)
  have raised: "aggregate_sales year month collection replies =
        ([], HTTPException 400 ''invalid year/month'')
      \<and> aggregate_volume year month collection replies =
        ([], HTTPException 400 ''invalid year/month'')"
    if "1 \<le> month" "month \<le> 12" "iso_month_range year month = Inl x" for x
    using that by (simp add: aggregate_sales_def aggregate_volume_def)
  have "iso_month_range year month = Inl ValueError"
    if "1 \<le> month" "month \<le> 12"
      "year < MINYEAR \<or> MAXYEAR < year \<or> (year = MAXYEAR \<and> month = 12)"
    using that by (rule iso_month_range_invalid)
  then show ?thesis using month raised by blast
qed

theorem aggregate_rejects_before_scroll_witness:
  "aggregate_sales 2024 13 ''sales_vol_staging''
       [scroll_page [point 1 (PDict [(''sales'', PInt 5)])] PNone]
     = ([], HTTPException 400 ''month must be 1..12'')
   \<and> aggregate_volume 2024 0 ''sales_vol_staging''
       [scroll_page [point 1 (PDict [(''sales_vol'', PInt 5)])] PNone]
     = ([], HTTPException 400 ''month must be 1..12'')
   \<and> aggregate_sales 9999 12 ''sales_vol_staging''
       [scroll_page [point 1 (PDict [(''sales'', PInt 5)])] PNone]
     = ([], HTTPException 400 ''invalid year/month'')"
  using aggregate_rejects_before_scroll[where month = 13 and year = 2024]
    aggregate_rejects_before_scroll[where month = 0 and year = 2024]
    aggregate_rejects_before_scroll[where month = 12 and year = 9999 and e = ValueError]
    range_9999_12
  by (simp add: MINYEAR_def MAXYEAR_def)

subsection \<open>The scroll engine\<close>



lemma truthy_not_none: "truthy v \<Longrightarrow> v \<noteq> PNone"
  by auto




subsection \<open>The search shim\<close>









subsection \<open>Intent detection\<close>

lemma re_search_Some: "re_search m prev s = Some r \<Longrightarrow> \<exists>p s'. m p s' = Some r"
proof (induction s arbitrary: prev)
  case Nil
  then show ?case by auto
next
  case (Cons c cs)
  then show ?case by (cases "m prev (c # cs)") auto
qed

lemma first_some_Some: "first_some f xs = Some r \<Longrightarrow> \<exists>x \<in> set xs. f x = Some r"
proof (induction xs)
  case Nil
  then show ?case by simp
next
  case (Cons x xs)
  then show ?case by (cases "f x") auto
qed

lemma digit_val_le: "digit_val c \<le> 9"
  by (simp add: digit_val_def)

lemma year_prefix_range:
  assumes "year_prefix s = Some y"
  shows "2000 \<le> digits_val y \<and> digits_val y \<le> 2099"
proof -
  from assms obtain c d where y: "y = [CHR ''2'', CHR ''0'', c, d]"
    by (auto simp: year_prefix_def split: list.splits if_splits)
  have "digits_val y = 2000 + 10 * digit_val c + digit_val d"
    unfolding y digits_val_def by (simp add: digit_val_def)
  then show ?thesis using digit_val_le[of c] digit_val_le[of d] by simp
qed

lemma match_numeric_year: "match_numeric p s = Some (y, m) \<Longrightarrow> year_prefix s = Some y"
  by (auto simp: match_numeric_def split: option.splits list.splits if_splits)

lemma month_map_range: "e \<in> set MONTH_MAP \<Longrightarrow> 1 \<le> snd e \<and> snd e \<le> 12"
  by (auto simp: MONTH_MAP_def)

lemma match_name_year_Some:
  assumes "match_name_year p s = Some (e, y)"
  shows "e \<in> set MONTH_MAP \<and> (\<exists>s'. year_prefix s' = Some y)"
proof -
  from assms obtain x where x: "x \<in> set MONTH_MAP"
    and fx: "(if fst x \<noteq> [] \<and> starts_with (fst x) s then
            (let rest = drop (length (fst x)) s
             in if word_boundary (Some (last (fst x))) rest \<and> takeWhile sep_ws rest \<noteq> []
                then (case year_prefix (dropWhile sep_ws rest) of
                        Some y \<Rightarrow> Some (x, y)
                      | None \<Rightarrow> None)
                else None)
          else None) = Some (e, y)"
    unfolding match_name_year_def by (auto split: if_splits dest!: first_some_Some)
  from fx have "x = e \<and> year_prefix (dropWhile sep_ws (drop (length (fst x)) s)) = Some y"
    by (auto simp: Let_def split: if_splits option.splits)
  with x show ?thesis by auto
qed

lemma match_year_name_Some:
  assumes "match_year_name p s = Some (y, e)"
  shows "e \<in> set MONTH_MAP \<and> year_prefix s = Some y"
proof -
  from assms obtain y' where y': "year_prefix s = Some y'"
    by (auto simp: match_year_name_def split: option.splits)
  with assms obtain x where "x \<in> set MONTH_MAP" "(y', x) = (y, e)"
    unfolding match_year_name_def
    by (auto simp: Let_def split: if_splits dest!: first_some_Some)
  with y' show ?thesis by auto
qed

lemma parse_range:
  "parse_year_month_from_text q = (PNone, PNone) \<or>
   (\<exists>y m. parse_year_month_from_text q = (PInt y, PInt m)
      \<and> 2000 \<le> y \<and> y \<le> 2099 \<and> 1 \<le> m \<and> m \<le> 12)"
proof -
  let ?t = "lower q"
  show ?thesis
  proof (cases "re_search match_numeric None ?t")
    case None
    note n1 = None
    show ?thesis
    proof (cases "re_search match_name_year None ?t")
      case None
      note n2 = None
      show ?thesis
      proof (cases "re_search match_year_name None ?t")
        case None
        then show ?thesis using n1 n2 by (simp add: parse_year_month_from_text_def)
      next
        case (Some r)
        obtain y e where r: "r = (y, e)" by (cases r)
        from Some r obtain p s where "match_year_name p s = Some (y, e)"
          using re_search_Some by fastforce
        then have "e \<in> set MONTH_MAP" "year_prefix s = Some y"
          using match_year_name_Some by blast+
        then have "1 \<le> snd e \<and> snd e \<le> 12" "2000 \<le> digits_val y \<and> digits_val y \<le> 2099"
          using month_map_range year_prefix_range by blast+
        then show ?thesis using n1 n2 Some r by (simp add: parse_year_month_from_text_def)
      qed
    next
      case (Some r)
      obtain y e where r: "r = (e, y)" by (cases r)
      from Some r obtain p s where "match_name_year p s = Some (e, y)"
        using re_search_Some by fastforce
      then obtain s' where "e \<in> set MONTH_MAP" "year_prefix s' = Some y"
        using match_name_year_Some by blast
      then have "1 \<le> snd e \<and> snd e \<le> 12" "2000 \<le> digits_val y \<and> digits_val y \<le> 2099"
        using month_map_range year_prefix_range by blast+
      then show ?thesis using n1 Some r by (simp add: parse_year_month_from_text_def)
    qed
  next
    case (Some r)
    obtain y m where r: "r = (y, m)" by (cases r)
    from Some r obtain p s where "match_numeric p s = Some (y, m)"
      using re_search_Some by fastforce
    then have yr: "2000 \<le> digits_val y \<and> digits_val y \<le> 2099"
      using match_numeric_year year_prefix_range by blast
    show ?thesis
    proof (cases "1 \<le> digits_val m \<and> digits_val m \<le> 12")
      case True
      then show ?thesis using Some r yr by (simp add: parse_year_month_from_text_def)
    next
      case False
      note bad = False
      show ?thesis
      proof (cases "re_search match_name_year None ?t")
        case None
        note n2 = None
        show ?thesis
        proof (cases "re_search match_year_name None ?t")
          case None
          then show ?thesis using Some r bad n2 by (auto simp: parse_year_month_from_text_def)
        next
          case (Some r3)
          obtain y3 e where r3: "r3 = (y3, e)" by (cases r3)
          from Some r3 obtain p s where "match_year_name p s = Some (y3, e)"
            using re_search_Some by fastforce
          then have "e \<in> set MONTH_MAP" "year_prefix s = Some y3"
            using match_year_name_Some by blast+
          then have "1 \<le> snd e \<and> snd e \<le> 12" "2000 \<le> digits_val y3 \<and> digits_val y3 \<le> 2099"
            using month_map_range year_prefix_range by blast+
          then show ?thesis using \<open>re_search match_numeric None ?t = Some r\<close> r bad n2 Some r3
            by (auto simp: parse_year_month_from_text_def)
        qed
      next
        case (Some r2)
        obtain y2 e where r2: "r2 = (e, y2)" by (cases r2)
        from Some r2 obtain p s where "match_name_year p s = Some (e, y2)"
          using re_search_Some by fastforce
        then obtain s' where "e \<in> set MONTH_MAP" "year_prefix s' = Some y2"
          using match_name_year_Some by blast
        then have "1 \<le> snd e \<and> snd e \<le> 12" "2000 \<le> digits_val y2 \<and> digits_val y2 \<le> 2099"
          using month_map_range year_prefix_range by blast+
        then show ?thesis using \<open>re_search match_numeric None ?t = Some r\<close> r bad Some r2
          by (auto simp: parse_year_month_from_text_def)
      qed
    qed
  qed
qed

lemmas intent_eval = parse_year_month_from_text_def lower_def to_lower_def match_numeric_def
  match_name_year_def match_year_name_def year_prefix_def word_boundary_def is_word_def
  sep_ws_def py_isspace_def is_digit_def MONTH_MAP_def digits_val_def digit_val_def
  is_revenue_aggregation_def is_volume_aggregation_def revenue_keywords_def volume_keywords_def

lemma parse_march: "parse_year_month_from_text ''total revenue in March 2024'' = (PInt 2024, PInt 3)"
  by (simp add: intent_eval)

lemma parse_august: "parse_year_month_from_text ''units sold last August 2023'' = (PInt 2023, PInt 8)"
  by (simp add: intent_eval)

lemma kw_march: "is_revenue_aggregation ''total revenue in March 2024''"
  by (simp add: intent_eval)

lemma kw_august: "\<not> is_revenue_aggregation ''units sold last August 2023''"
  "is_volume_aggregation ''units sold last August 2023''"
  by (simp_all add: intent_eval)


text \<open>
  Claim C2.  \<^verbatim>\<open>chat\<close> takes the revenue branch when the question contains a revenue
  keyword and a (year, month) was extracted, else the volume branch when it contains a
  volume keyword and a (year, month) was extracted, else the retrieval branch, also
  when a date is there without a keyword.  An extracted pair always has a year in
  2000..2099 and a month in 1..12, so the truth tests \<^verbatim>\<open>year and month\<close> never drop
  one.  The two questions of the claim give revenue aggregation for (2024, 3) and volume
  aggregation for (2023, 8).
\<close>

theorem chat_route_classification:
  "chat_route q =
     (if is_revenue_aggregation q \<and> parse_year_month_from_text q \<noteq> (PNone, PNone)
      then RevenueAggregation (fst (parse_year_month_from_text q))
             (snd (parse_year_month_from_text q))
      else if is_volume_aggregation q \<and> parse_year_month_from_text q \<noteq> (PNone, PNone)
      then VolumeAggregation (fst (parse_year_month_from_text q))
             (snd (parse_year_month_from_text q))
      else Retrieval)
   \<and> (parse_year_month_from_text q \<noteq> (PNone, PNone) \<longrightarrow>
        (\<exists>y m. parse_year_month_from_text q = (PInt y, PInt m)
           \<and> 2000 \<le> y \<and> y \<le> 2099 \<and> 1 \<le> m \<and> m \<le> 12))
   \<and> (\<not> is_revenue_aggregation q \<and> \<not> is_volume_aggregation q \<longrightarrow> chat_route q = Retrieval)
   \<and> chat_route ''total revenue in March 2024'' = RevenueAggregation (PInt 2024) (PInt 3)
   \<and> chat_route ''units sold last August 2023'' = VolumeAggregation (PInt 2023) (PInt 8)"
proof -
  have route: "chat_route q =
     (if is_revenue_aggregation q \<and> parse_year_month_from_text q \<noteq> (PNone, PNone)
      then RevenueAggregation (fst (parse_year_month_from_text q))
             (snd (parse_year_month_from_text q))
      else if is_volume_aggregation q \<and> parse_year_month_from_text q \<noteq> (PNone, PNone)
      then VolumeAggregation (fst (parse_year_month_from_text q))
             (snd (parse_year_month_from_text q))
      else Retrieval)"
    using parse_range[of q] by (auto simp: chat_route_def)
  have range: "parse_year_month_from_text q \<noteq> (PNone, PNone) \<longrightarrow>
        (\<exists>y m. parse_year_month_from_text q = (PInt y, PInt m)
           \<and> 2000 \<le> y \<and> y \<le> 2099 \<and> 1 \<le> m \<and> m \<le> 12)"
    using parse_range[of q] by auto
  have none: "\<not> is_revenue_aggregation q \<and> \<not> is_volume_aggregation q \<longrightarrow> chat_route q = Retrieval"
    by (simp add: chat_route_def split_beta)
  have march: "chat_route ''total revenue in March 2024'' = RevenueAggregation (PInt 2024) (PInt 3)"
    by (simp add: chat_route_def parse_march kw_march)
  have august: "chat_route ''units sold last August 2023'' = VolumeAggregation (PInt 2023) (PInt 8)"
    by (simp add: chat_route_def parse_august kw_august)
  show ?thesis using route range none march august by blast
qed

lemma parse_bare_date: "parse_year_month_from_text ''what happened in March 2024'' = (PInt 2024, PInt 3)"
  by (simp add: intent_eval)

lemma kw_bare_date: "\<not> is_revenue_aggregation ''what happened in March 2024''"
  "\<not> is_volume_aggregation ''what happened in March 2024''"
  by (simp_all add: intent_eval)

theorem chat_route_classification_witness:
  "parse_year_month_from_text ''what happened in March 2024'' = (PInt 2024, PInt 3)
   \<and> chat_route ''what happened in March 2024'' = Retrieval
   \<and> chat_route ''total revenue in March 2024'' = RevenueAggregation (PInt 2024) (PInt 3)"
  using chat_route_classification[of "''what happened in March 2024''"]
    chat_route_classification[of "''total revenue in March 2024''"]
  by (simp add: parse_bare_date kw_bare_date)



















subsection \<open>The payload normalizer\<close>




lemma map_of_dict_set: "map_of (dict_set kvs k v) = (map_of kvs)(k \<mapsto> v)"
  by (induction kvs k v rule: dict_set.induct) (auto simp: fun_eq_iff)





lemma normalize_item_cases:
  "normalize_item repr_of tm acc (k, v) =
     (case map_of tm k of
        None \<Rightarrow> acc
      | Some t \<Rightarrow> if v = PNone then acc else dict_set acc k (field_value repr_of t v))"
  by (simp add: normalize_item_def field_value_def split: option.splits)







lemma loop_lookup:
  "distinct (map fst doc) \<Longrightarrow>
   map_of (foldl (normalize_item repr_of tm) acc doc) k =
     (case map_of doc k of
        None \<Rightarrow> map_of acc k
      | Some v \<Rightarrow>
          (case map_of tm k of
             None \<Rightarrow> map_of acc k
           | Some t \<Rightarrow> if v = PNone then map_of acc k else Some (field_value repr_of t v)))"
proof (induction doc arbitrary: acc)
  case Nil
  then show ?case by simp
next
  case (Cons kv doc)
  obtain k' v' where kv: "kv = (k', v')" by (cases kv)
  have d: "distinct (map fst doc)" and nk: "k' \<notin> fst ` set doc" using Cons.prems kv by auto
  have ih: "map_of (foldl (normalize_item repr_of tm) (normalize_item repr_of tm acc (k', v')) doc) k =
     (case map_of doc k of
        None \<Rightarrow> map_of (normalize_item repr_of tm acc (k', v')) k
      | Some v \<Rightarrow>
          (case map_of tm k of
             None \<Rightarrow> map_of (normalize_item repr_of tm acc (k', v')) k
           | Some t \<Rightarrow> if v = PNone then map_of (normalize_item repr_of tm acc (k', v')) k
                       else Some (field_value repr_of t v)))"
    by (rule Cons.IH[OF d])
  show ?case
  proof (cases "k = k'")
    case True
    then have "map_of doc k = None" using nk by (simp add: map_of_eq_None_iff)
    then show ?thesis unfolding kv using ih True
      by (auto simp: normalize_item_cases map_of_dict_set split: option.splits)
  next
    case False
    then have "map_of (normalize_item repr_of tm acc (k', v')) k = map_of acc k"
      by (auto simp: normalize_item_cases map_of_dict_set split: option.splits)
    then show ?thesis unfolding kv using ih False by (simp split: option.splits)
  qed
qed

lemma fallback_date: "fallback repr_of ''date'' v = PStr epoch_sentinel"
  by (simp add: fallback_def strftime_z_def fmt_datetime_def zero_pad_def dec_digits.simps
      digit_char_def epoch_sentinel_def)


lemma month_group_length: "(g, r) \<in> set (month_group s) \<Longrightarrow> length s \<le> 2 + length r"
proof (cases s)
  case Nil
  then show ?thesis by simp
next
  case (Cons a s')
  assume m: "(g, r) \<in> set (month_group s)"
  show ?thesis
  proof (cases s')
    case Nil
    then show ?thesis using Cons by simp
  next
    case (Cons b rest)
    then have "s = a # b # rest" using \<open>s = a # s'\<close> by simp
    then show ?thesis using m by (auto simp: month_group_def split: if_splits)
  qed
qed

lemma day_group_length: "(g, r) \<in> set (day_group s) \<Longrightarrow> length s \<le> 2 + length r"
proof (cases s)
  case Nil
  then show ?thesis by simp
next
  case (Cons a s')
  assume m: "(g, r) \<in> set (day_group s)"
  show ?thesis
  proof (cases s')
    case Nil
    then show ?thesis using Cons by simp
  next
    case (Cons b rest)
    then have "s = a # b # rest" using \<open>s = a # s'\<close> by simp
    then show ?thesis using m by (auto simp: day_group_def split: if_splits)
  qed
qed

lemma match_ymd_length:
  assumes "match_ymd s = Some (y, m, d, rest)"
  shows "length s \<le> 10 + length rest"
proof -
  from assms have len: "5 \<le> length s" by (auto simp: match_ymd_def split: if_splits)
  from assms obtain mr where mr: "mr \<in> set (month_group (drop 5 s))"
    and k: "(case snd mr of
             [] \<Rightarrow> None
           | c # after \<Rightarrow>
               if c = CHR ''-'' then
                 (case day_group after of
                    [] \<Rightarrow> None
                  | dr # others \<Rightarrow> Some (take 4 s, fst mr, fst dr, snd dr))
               else None) = Some (y, m, d, rest)"
    unfolding match_ymd_def by (auto split: if_splits dest!: first_some_Some)
  from k obtain c after dr others where r: "snd mr = c # after" "day_group after = dr # others"
    "snd dr = rest"
    by (auto split: list.splits if_splits)
  have "(fst dr, rest) \<in> set (day_group after)" using r by (metis list.set_intros(1) prod.collapse)
  then have a: "length after \<le> 2 + length rest" by (rule day_group_length)
  have "(fst mr, snd mr) \<in> set (month_group (drop 5 s))" using mr by simp
  then have b: "length (drop 5 s) \<le> 2 + length (snd mr)" by (rule month_group_length)
  show ?thesis using a b r len by simp
qed

lemma strptime_long_fails: "10 < length s \<Longrightarrow> strptime_ymd s = Inl ValueError"
proof (cases "match_ymd s")
  case None
  then show ?thesis by (simp add: strptime_ymd_def)
next
  case (Some r)
  assume long: "10 < length s"
  obtain y m d rest where r: "r = (y, m, d, rest)" by (cases r)
  then have "length s \<le> 10 + length rest" using Some match_ymd_length by blast
  then have "rest \<noteq> []" using long by auto
  then show ?thesis using Some r by (simp add: strptime_ymd_def)
qed

lemma rfc3339_long: "rfc3339_timestamp s \<Longrightarrow> 10 < length s"
  by (simp add: rfc3339_timestamp_def)

lemma coerce_date_long_string:
  "10 < length s \<Longrightarrow> coerce repr_of ''date'' (PStr s) = Inl ValueError"
  by (simp add: coerce_def py_str_def strptime_long_fails)


text \<open>
  Claim C10.  A field of type \<open>date\<close> whose raw value is a string in the form of an
  RFC 3339 timestamp is not kept: \<^verbatim>\<open>strptime\<close> with \<^verbatim>\<open>%Y-%m-%d\<close> raises, since text
  remains after the date, and the field gets the sentinel 1970-01-01T00:00:00Z.
\<close>

theorem normalize_timestamp_to_sentinel:
  assumes "rfc3339_timestamp s"
    and "map_of (schema_of type_map class_name) k = Some ''date''"
    and "distinct (map fst doc)"
    and "(k, PStr s) \<in> set doc"
  shows "strptime_ymd s = Inl ValueError
       \<and> map_of (normalize_with repr_of type_map doc class_name) k = Some (PStr epoch_sentinel)
       \<and> (s \<noteq> epoch_sentinel \<longrightarrow>
            map_of (normalize_with repr_of type_map doc class_name) k \<noteq> Some (PStr s))"
proof -
  have long: "10 < length s" using assms(1) by (rule rfc3339_long)
  have parse: "strptime_ymd s = Inl ValueError" using long by (rule strptime_long_fails)
  have fv: "field_value repr_of ''date'' (PStr s) = PStr epoch_sentinel"
    using long by (simp add: field_value_def coerce_date_long_string fallback_date)
  have doc: "map_of doc k = Some (PStr s)" using assms(3,4) by simp
  have n: "normalize_with repr_of type_map doc class_name =
             foldl (normalize_item repr_of (schema_of type_map class_name)) [] doc"
    by (simp add: normalize_with_def schema_of_def)
  have "map_of (normalize_with repr_of type_map doc class_name) k = Some (PStr epoch_sentinel)"
    unfolding n using loop_lookup[OF assms(3), of repr_of "schema_of type_map class_name" "[]" k]
      doc assms(2) fv by simp
  then show ?thesis using parse by simp
qed

lemma sales_vol_schema:
  "schema_of TYPE_MAP ''sales_vol_staging'' =
     [(''sales'', ''string''), (''product_name'', ''string''), (''sales_vol'', ''int''),
      (''month_year'', ''date'')]"
  by (simp add: schema_of_def TYPE_MAP_def build_type_map_def SCHEMAS_def)

theorem normalize_timestamp_to_sentinel_witness:
  "rfc3339_timestamp ''2023-05-01T00:00:00Z''
   \<and> strptime_ymd ''2023-05-01T00:00:00Z'' = Inl ValueError
   \<and> map_of (normalize_metadata sample_repr
        [(''product_name'', PStr ''Chair''), (''month_year'', PStr ''2023-05-01T00:00:00Z'')]
        ''sales_vol_staging'') ''month_year'' = Some (PStr ''1970-01-01T00:00:00Z'')"
proof -
  have ts: "rfc3339_timestamp ''2023-05-01T00:00:00Z''"
    by (simp add: rfc3339_timestamp_def two_digits_def is_digit_def rfc3339_offset_def)
  have ty: "map_of (schema_of TYPE_MAP ''sales_vol_staging'') ''month_year'' = Some ''date''"
    by (simp add: sales_vol_schema)
  show ?thesis
    using normalize_timestamp_to_sentinel[OF ts ty, where repr_of = sample_repr
        and doc = "[(''product_name'', PStr ''Chair''), (''month_year'', PStr ''2023-05-01T00:00:00Z'')]"]
      ts
    by (simp add: normalize_metadata_def epoch_sentinel_def)
qed


end
